theory Spec2Isabelle
  imports Complex_Main
begin

section \<open>SceneRendererBJS: the data model\<close>

text \<open>
  The renderer mutates objects of the scene graph engine (meshes, materials, textures,
  animation groups) and registers closures on a page-global event target. The objects live
  in stores (lists) of the scene and are referred to by their index, so that two references
  to one object alias; a closure is a constructor of \<open>handler\<close> holding the references it
  captured. JavaScript numbers are idealised as reals: a listener that would store a
  non-finite number (\<open>NaN\<close>, \<open>Infinity\<close>) has no result in this model (\<open>None\<close>).
\<close>

record vec3 =
  vx :: real
  vy :: real
  vz :: real

record color3 =
  cr :: real
  cg :: real
  cb :: real

definition Vector3_Zero :: vec3 where
  "Vector3_Zero = \<lparr>vx = 0, vy = 0, vz = 0\<rparr>"

definition Vector3_One :: vec3 where
  "Vector3_One = \<lparr>vx = 1, vy = 1, vz = 1\<rparr>"

definition setAll :: "real \<Rightarrow> vec3" where
  "setAll v = \<lparr>vx = v, vy = v, vz = v\<rparr>"

definition Color3_Black :: color3 where
  "Color3_Black = \<lparr>cr = 0, cg = 0, cb = 0\<rparr>"

definition Color3_White :: color3 where
  "Color3_White = \<lparr>cr = 1, cg = 1, cb = 1\<rparr>"

datatype error = TypeError | LoadError string

text \<open>A media source is a URL or an existing DOM element (\<open>string|HTMLVideoElement\<close>).\<close>

datatype media_src = Url string | Element nat

text \<open>What a mesh's \<open>material\<close> field refers to: JavaScript lets any object be assigned.\<close>

datatype objref = MaterialRef nat | TextureRef nat

record node =
  n_name :: string
  n_id :: string
  n_parent :: "nat option"
  n_enabled :: bool
  n_rotation :: vec3
  n_position :: vec3
  n_scaling :: vec3
  n_material :: "objref option"
  n_plane :: "(real \<times> real) option"
  n_disposed :: bool

record material =
  m_name :: string
  m_diffuseColor :: color3
  m_emissiveTexture :: "nat option"
  m_useLogarithmicDepth :: bool

text \<open>
  The two texture constructors of the source, with the arguments the source passes:
  \<open>VideoTexture(name, src, scene, generateMipMaps, invertY, samplingMode, settings)\<close> and
  \<open>Texture(url, scene, noMipmap, invertY, samplingMode, onLoad, onError, buffer)\<close>.
  \<open>t_video\<close> is the video element of a video texture, named by its source: the element
  that was passed, or the element that the texture creates for the URL. \<open>t_loadError\<close> is
  what the engine's asynchronous load of the texture ends with; the constructors return
  before it is known. A texture that is given no URL loads nothing.
\<close>

datatype texture_ctor =
    VideoTexture string media_src bool bool bool
  | Texture "media_src option" bool bool "media_src option"

record texture =
  t_ctor :: texture_ctor
  t_video :: "media_src option"
  t_loadError :: "error option"

record animationGroup =
  ag_name :: string
  ag_playing :: bool

text \<open>
  The closures the source registers as event listeners, each with the objects it captured:
  the two listeners of \<open>_addRoot\<close> (the root, and the root with \<open>visibility\<close>) and the
  \<open>getNFTData\<close> listener of each of the three attachers (the content mesh).
\<close>

datatype handler =
    PoseListener nat
  | TrackingLostListener nat bool
  | ModelDataListener nat
  | VideoDataListener nat
  | ImageDataListener nat

text \<open>
  \<open>e.detail\<close> of an event: an object with the field \<open>matrixGL_RH\<close> (an object with
  numeric keys, listed in enumeration order), an object with \<open>width\<close>, \<open>height\<close> and
  \<open>dpi\<close>, or nothing.
\<close>

datatype detail =
    MatrixDetail "(nat \<times> real) list"
  | NFTDataDetail real real real
  | NoDetail

text \<open>
  The state of a renderer: the objects of its scene, the listeners it registered, whether
  the engine runs its render loop, and the URLs it has asked the engine's importer for,
  one entry for each call of \<open>ImportMeshAsync\<close>.
\<close>

record scene =
  meshes :: "node list"
  materials :: "material list"
  textures :: "texture list"
  animationGroups :: "animationGroup list"
  listeners :: "(string \<times> handler) list"
  renderLoop :: bool
  importRequests :: "string list"

text \<open>
  The mathematics of the scene graph engine (\<open>Matrix\<close>, \<open>Quaternion\<close>, \<open>Vector3\<close>) is an
  external library: the functions the source calls are parameters of the model, over the
  engine's own matrix type \<open>'m\<close> and quaternion type \<open>'q\<close>. \<open>invertedWorldMatrix\<close> is the
  inverse of the world matrix of a mesh, which \<open>setAbsolutePosition\<close> uses for a mesh that
  has a parent.
\<close>

record ('m, 'q) mathlib =
  FromArray :: "real option list \<Rightarrow> 'm"
  getRotationMatrix :: "'m \<Rightarrow> 'm"
  fromRotationMatrix :: "'m \<Rightarrow> 'q"
  toEulerAngles :: "'q \<Rightarrow> vec3"
  TransformCoordinates :: "vec3 \<Rightarrow> 'm \<Rightarrow> vec3"
  invertedWorldMatrix :: "node list \<Rightarrow> nat \<Rightarrow> 'm"

text \<open>
  What the engine's importer and texture loader answer: \<open>ImportMeshAsync\<close> fails or gives
  the content of the file (the meshes as id and name, the animation groups as name and
  whether the loader started them, the names of the materials, of which the source
  touches the flag \<open>useLogarithmicDepth\<close> only); \<open>textureLoad\<close> is the outcome of
  fetching and decoding a texture's source.
\<close>

record asset =
  a_meshes :: "(string \<times> string) list"
  a_animationGroups :: "(string \<times> bool) list"
  a_materials :: "string list"

record env =
  ImportMeshAsync :: "string \<Rightarrow> error + asset"
  textureLoad :: "media_src \<Rightarrow> error option"

text \<open>
  The outcome of the load that a texture constructor starts: of the source of a video
  texture, of the URL of a texture, and none for a texture whose URL is \<open>null\<close>.
\<close>

fun texture_load :: "env \<Rightarrow> texture_ctor \<Rightarrow> error option" where
  "texture_load e (VideoTexture nm src generateMipMaps invertY autoUpdate) = textureLoad e src"
| "texture_load e (Texture None noMipmap invertY buffer) = None"
| "texture_load e (Texture (Some url) noMipmap invertY buffer) = textureLoad e url"

section \<open>Engine objects\<close>

definition Mesh :: "string \<Rightarrow> node" where
  "Mesh nm = \<lparr>n_name = nm, n_id = nm, n_parent = None, n_enabled = True,
     n_rotation = Vector3_Zero, n_position = Vector3_Zero, n_scaling = Vector3_One,
     n_material = None, n_plane = None, n_disposed = False\<rparr>"

definition new_Mesh :: "string \<Rightarrow> scene \<Rightarrow> nat \<times> scene" where
  "new_Mesh nm s = (length (meshes s), s\<lparr>meshes := meshes s @ [Mesh nm]\<rparr>)"

definition CreatePlane :: "string \<Rightarrow> real \<Rightarrow> real \<Rightarrow> scene \<Rightarrow> nat \<times> scene" where
  "CreatePlane nm w h s =
     (length (meshes s), s\<lparr>meshes := meshes s @ [(Mesh nm)\<lparr>n_plane := Some (w, h)\<rparr>]\<rparr>)"

definition StandardMaterial :: "string \<Rightarrow> material" where
  "StandardMaterial nm = \<lparr>m_name = nm, m_diffuseColor = Color3_White,
     m_emissiveTexture = None, m_useLogarithmicDepth = False\<rparr>"

definition new_StandardMaterial :: "string \<Rightarrow> scene \<Rightarrow> nat \<times> scene" where
  "new_StandardMaterial nm s =
     (length (materials s), s\<lparr>materials := materials s @ [StandardMaterial nm]\<rparr>)"

definition new_texture :: "texture \<Rightarrow> scene \<Rightarrow> nat \<times> scene" where
  "new_texture t s = (length (textures s), s\<lparr>textures := textures s @ [t]\<rparr>)"

definition upd_mesh :: "nat \<Rightarrow> (node \<Rightarrow> node) \<Rightarrow> scene \<Rightarrow> scene" where
  "upd_mesh r f s = s\<lparr>meshes := (meshes s)[r := f (meshes s ! r)]\<rparr>"

definition upd_material :: "nat \<Rightarrow> (material \<Rightarrow> material) \<Rightarrow> scene \<Rightarrow> scene" where
  "upd_material r f s = s\<lparr>materials := (materials s)[r := f (materials s ! r)]\<rparr>"

definition setEnabled :: "nat \<Rightarrow> bool \<Rightarrow> scene \<Rightarrow> scene" where
  "setEnabled r b s = upd_mesh r (\<lambda>n. n\<lparr>n_enabled := b\<rparr>) s"

text \<open>
  \<open>setAbsolutePosition\<close> of the engine: a mesh without parent takes the vector as its
  position; a mesh with a parent takes it transformed into the parent's frame.
\<close>

definition setAbsolutePosition ::
  "('m, 'q) mathlib \<Rightarrow> nat \<Rightarrow> vec3 \<Rightarrow> scene \<Rightarrow> scene" where
  "setAbsolutePosition lib r p s =
     (case n_parent (meshes s ! r) of
        None \<Rightarrow> upd_mesh r (\<lambda>n. n\<lparr>n_position := p\<rparr>) s
      | Some par \<Rightarrow>
          upd_mesh r (\<lambda>n. n\<lparr>n_position :=
            TransformCoordinates lib p (invertedWorldMatrix lib (meshes s) par)\<rparr>) s)"

definition addEventListener :: "string \<Rightarrow> handler \<Rightarrow> scene \<Rightarrow> scene" where
  "addEventListener ev h s = s\<lparr>listeners := listeners s @ [(ev, h)]\<rparr>"

section \<open>The event names\<close>

definition poseEvent :: "string \<Rightarrow> string \<Rightarrow> string" where
  "poseEvent uuid nm = ''getMatrixGL_RH-'' @ uuid @ ''-'' @ nm"

definition lostEvent :: "string \<Rightarrow> string \<Rightarrow> string" where
  "lostEvent uuid nm = ''nftTrackingLost-'' @ uuid @ ''-'' @ nm"

definition dataEvent :: "string \<Rightarrow> string \<Rightarrow> string" where
  "dataEvent uuid nm = ''getNFTData-'' @ uuid @ ''-'' @ nm"

section \<open>\<open>_objectToMatrix\<close> and \<open>_addRoot\<close>\<close>

text \<open>
  \<open>array[key] = v\<close> on a JavaScript array: an index past the end extends the array, the
  entries in between are holes (\<open>None\<close>).
\<close>

definition js_array_set :: "'a option list \<Rightarrow> nat \<Rightarrow> 'a \<Rightarrow> 'a option list" where
  "js_array_set array key v =
     (if key < length array then array[key := Some v]
      else array @ replicate (key - length array) None @ [Some v])"

definition objectToArray :: "(nat \<times> real) list \<Rightarrow> real option list" where
  "objectToArray obj = foldl (\<lambda>array (key, v). js_array_set array key v) [] obj"

definition objectToMatrix :: "('m, 'q) mathlib \<Rightarrow> (nat \<times> real) list \<Rightarrow> 'm" where
  "objectToMatrix lib obj = FromArray lib (objectToArray obj)"

text \<open>
  The body of the pose listener after \<open>root.setEnabled(true)\<close>, for the value of
  \<open>e.detail.matrixGL_RH\<close>.
\<close>

definition applyMatrix ::
  "('m, 'q) mathlib \<Rightarrow> nat \<Rightarrow> (nat \<times> real) list \<Rightarrow> scene \<Rightarrow> scene" where
  "applyMatrix lib rootM obj s =
     (let matrix = objectToMatrix lib obj;
          rotationMatrix = getRotationMatrix lib matrix;
          rotation = fromRotationMatrix lib rotationMatrix;
          s1 = upd_mesh rootM (\<lambda>n. n\<lparr>n_rotation := toEulerAngles lib rotation\<rparr>) s;
          position = TransformCoordinates lib Vector3_Zero matrix
      in setAbsolutePosition lib rootM position s1)"

text \<open>
  The offset of the \<open>getNFTData\<close> listeners: \<open>((dimension / dpi) * 2.54 * 10) / 2\<close>.
\<close>

definition offset :: "real \<Rightarrow> real \<Rightarrow> real" where
  "offset dimension dpi = ((dimension / dpi) * 2.54 * 10) / 2"

text \<open>
  One listener called with \<open>e.detail\<close>. A listener that throws keeps what it has done so
  far: the pose listener enables the root before it reads \<open>e.detail.matrixGL_RH\<close>, which
  throws when there is no detail; a detail without that field enumerates no key. The data
  listeners throw on a missing detail before they write; on a detail without dimensions,
  or with \<open>dpi = 0\<close>, they would store a non-finite number (\<open>None\<close>).
\<close>

fun handle :: "('m, 'q) mathlib \<Rightarrow> handler \<Rightarrow> detail \<Rightarrow> scene \<Rightarrow> scene option" where
  "handle lib (PoseListener rootM) d s =
     (let s1 = setEnabled rootM True s
      in case d of
           NoDetail \<Rightarrow> Some s1
         | MatrixDetail obj \<Rightarrow> Some (applyMatrix lib rootM obj s1)
         | NFTDataDetail w h dpi \<Rightarrow> Some (applyMatrix lib rootM [] s1))"
| "handle lib (TrackingLostListener rootM visibility) d s =
     Some (setEnabled rootM visibility s)"
| "handle lib (ModelDataListener mesh) d s =
     (case d of
        NoDetail \<Rightarrow> Some s
      | MatrixDetail obj \<Rightarrow> None
      | NFTDataDetail w h dpi \<Rightarrow>
          if dpi = 0 then None
          else Some (upd_mesh mesh (\<lambda>n. n\<lparr>n_position :=
                 (n_position n)\<lparr>vy := offset h dpi, vx := offset w dpi\<rparr>\<rparr>) s))"
| "handle lib (VideoDataListener plane) d s =
     (case d of
        NoDetail \<Rightarrow> Some s
      | MatrixDetail obj \<Rightarrow> None
      | NFTDataDetail w h dpi \<Rightarrow>
          if dpi = 0 then None
          else Some (upd_mesh plane (\<lambda>n. n\<lparr>n_position :=
                 (n_position n)\<lparr>vy := offset h dpi, vx := offset w dpi\<rparr>\<rparr>) s))"
| "handle lib (ImageDataListener plane) d s =
     (case d of
        NoDetail \<Rightarrow> Some s
      | MatrixDetail obj \<Rightarrow> None
      | NFTDataDetail w h dpi \<Rightarrow>
          if dpi = 0 then None
          else Some (upd_mesh plane (\<lambda>n. n\<lparr>n_position :=
                 (n_position n)\<lparr>vy := offset h dpi, vx := offset h dpi\<rparr>\<rparr>) s))"

text \<open>
  The event target calls the listeners registered under the event's name, in the order of
  their registration.
\<close>

fun run_listeners ::
  "('m, 'q) mathlib \<Rightarrow> handler list \<Rightarrow> detail \<Rightarrow> scene \<Rightarrow> scene option" where
  "run_listeners lib [] d s = Some s"
| "run_listeners lib (h # hs) d s =
     (case handle lib h d s of None \<Rightarrow> None | Some s1 \<Rightarrow> run_listeners lib hs d s1)"

definition listeners_of :: "string \<Rightarrow> scene \<Rightarrow> handler list" where
  "listeners_of ev s = map snd (filter (\<lambda>l. fst l = ev) (listeners s))"

definition dispatchEvent ::
  "('m, 'q) mathlib \<Rightarrow> string \<Rightarrow> detail \<Rightarrow> scene \<Rightarrow> scene option" where
  "dispatchEvent lib ev d s = run_listeners lib (listeners_of ev s) d s"

definition addRoot :: "string \<Rightarrow> nat \<Rightarrow> string \<Rightarrow> bool \<Rightarrow> scene \<Rightarrow> scene" where
  "addRoot uuid rootM nm visibility s =
     addEventListener (lostEvent uuid nm) (TrackingLostListener rootM visibility)
       (addEventListener (poseEvent uuid nm) (PoseListener rootM) s)"

section \<open>JavaScript values\<close>

text \<open>
  The values of a variable or parameter that the source tests or converts: \<open>typeof\<close>, and
  the string a value becomes as an operand of \<open>+\<close> with a string.
\<close>

datatype jsval = JUndefined | JNull | JBoolean bool | JString string | JObject nat

fun typeof :: "jsval \<Rightarrow> string" where
  "typeof JUndefined = ''undefined''"
| "typeof JNull = ''object''"
| "typeof (JBoolean b) = ''boolean''"
| "typeof (JString str) = ''string''"
| "typeof (JObject ob) = ''object''"

fun js_string :: "jsval \<Rightarrow> string" where
  "js_string JUndefined = ''undefined''"
| "js_string JNull = ''null''"
| "js_string (JBoolean b) = (if b then ''true'' else ''false'')"
| "js_string (JString str) = str"
| "js_string (JObject ob) = ''[object Object]''"

section \<open>The constructor\<close>

text \<open>
  A new renderer has an empty scene: the camera and the light of the constructor are not
  meshes, and no claim is about them. The \<open>uuid\<close> of the renderer is a parameter of the
  operations.
\<close>

definition SceneRendererBJS :: scene where
  "SceneRendererBJS = \<lparr>meshes = [], materials = [], textures = [], animationGroups = [],
     listeners = [], renderLoop = False, importRequests = []\<rparr>"

text \<open>\<open>start\<close>: the engine runs the render loop from then on.\<close>

definition start :: "scene \<Rightarrow> scene" where
  "start s = s\<lparr>renderLoop := True\<rparr>"

section \<open>\<open>addModel\<close> and \<open>_processModelData\<close>\<close>

text \<open>
  The data of an import: references to the meshes and the animation groups the importer
  added to the scene. The result of the processing function: \<open>mesh\<close>, and \<open>animation\<close> or
  \<open>animations\<close>; a field that was not set is \<open>None\<close>.
\<close>

record import_data =
  d_meshes :: "nat list"
  d_animationGroups :: "nat list"

record model =
  model_mesh :: "nat option"
  model_animation :: "nat option"
  model_animations :: "nat list option"

definition imported_mesh :: "string \<times> string \<Rightarrow> node" where
  "imported_mesh m = (Mesh (snd m))\<lparr>n_id := fst m\<rparr>"

definition imported_animationGroup :: "string \<times> bool \<Rightarrow> animationGroup" where
  "imported_animationGroup g = \<lparr>ag_name = fst g, ag_playing = snd g\<rparr>"

definition import_asset :: "asset \<Rightarrow> scene \<Rightarrow> import_data \<times> scene" where
  "import_asset a s =
     (\<lparr>d_meshes = [length (meshes s) ..< length (meshes s) + length (a_meshes a)],
       d_animationGroups = [length (animationGroups s) ..<
                              length (animationGroups s) + length (a_animationGroups a)]\<rparr>,
      s\<lparr>meshes := meshes s @ map imported_mesh (a_meshes a),
        animationGroups := animationGroups s @ map imported_animationGroup (a_animationGroups a),
        materials := materials s @ map StandardMaterial (a_materials a)\<rparr>)"

definition dispose :: "nat \<Rightarrow> scene \<Rightarrow> scene" where
  "dispose m s = upd_mesh m (\<lambda>n. n\<lparr>n_disposed := True\<rparr>) s"

definition upd_animationGroup ::
  "nat \<Rightarrow> (animationGroup \<Rightarrow> animationGroup) \<Rightarrow> scene \<Rightarrow> scene" where
  "upd_animationGroup g f s =
     s\<lparr>animationGroups := (animationGroups s)[g := f (animationGroups s ! g)]\<rparr>"

definition stop :: "nat \<Rightarrow> scene \<Rightarrow> scene" where
  "stop g s = upd_animationGroup g (\<lambda>a. a\<lparr>ag_playing := False\<rparr>) s"

text \<open>
  \<open>_processModelData (data, name)\<close>. \<open>find\<close> gives \<open>undefined\<close> when no mesh has the id,
  and then the assignment to \<open>model.mesh.name\<close> throws a \<open>TypeError\<close>.
\<close>

definition processModelData ::
  "import_data \<Rightarrow> jsval \<Rightarrow> scene \<Rightarrow> (error + model) \<times> scene" where
  "processModelData data nm s =
     (case find (\<lambda>mesh. n_id (meshes s ! mesh) = ''__root__'') (d_meshes data) of
        None \<Rightarrow> (Inl TypeError, s)
      | Some mesh \<Rightarrow>
          let s1 = upd_mesh mesh (\<lambda>n. n\<lparr>n_name := js_string nm @ '' Mesh''\<rparr>) s;
              s2 = upd_mesh mesh (\<lambda>n. n\<lparr>n_id := n_name n\<rparr>) s1;
              light = find (\<lambda>mesh. n_id (meshes s2 ! mesh) = ''Default Light'') (d_meshes data);
              s3 = (case light of None \<Rightarrow> s2 | Some l \<Rightarrow> dispose l s2);
              s4 = foldl (\<lambda>s' animationGroup. stop animationGroup s') s3 (d_animationGroups data)
          in (case d_animationGroups data of
                [] \<Rightarrow> (Inr \<lparr>model_mesh = Some mesh, model_animation = None,
                            model_animations = Some (d_animationGroups data)\<rparr>, s4)
              | firstAnim # rest \<Rightarrow>
                  if ag_name (animationGroups s4 ! firstAnim) = ''All Animations''
                     \<or> ag_name (animationGroups s4 ! firstAnim) = ''Animation''
                  then (Inr \<lparr>model_mesh = Some mesh, model_animation = Some firstAnim,
                              model_animations = None\<rparr>,
                        upd_animationGroup firstAnim
                          (\<lambda>a. a\<lparr>ag_name := js_string nm @ '' Animation''\<rparr>) s4)
                  else (Inr \<lparr>model_mesh = Some mesh, model_animation = None,
                              model_animations = Some (d_animationGroups data)\<rparr>, s4)))"

text \<open>
  The argument object of \<open>addModel\<close>; a field that was left out is \<open>None\<close> and takes its
  default. A processing function of the caller is a function of the imported data (the
  source calls \<open>process(data)\<close>) that returns a model or throws; a model without \<open>mesh\<close>
  makes the assignment to \<open>model.mesh.parent\<close> throw.
\<close>

record model_args =
  margs_url :: string
  margs_name :: string
  margs_scale :: "real option"
  margs_visibility :: "bool option"
  margs_process :: "(import_data \<Rightarrow> error + model) option"

definition default :: "'a \<Rightarrow> 'a option \<Rightarrow> 'a" where
  "default d v = (case v of None \<Rightarrow> d | Some x \<Rightarrow> x)"

text \<open>The call of the importer for a URL, as the renderer's state records it.\<close>

definition requested :: "string \<Rightarrow> scene \<Rightarrow> scene" where
  "requested url s = s\<lparr>importRequests := importRequests s @ [url]\<rparr>"

text \<open>
  \<open>addModel\<close>: the result is the settled promise, \<open>Inl\<close> a rejection. The importer is
  called once, and its rejection is the rejection of \<open>addModel\<close>. An exception thrown
  after the import leaves what was done until then.
\<close>

definition addModel ::
  "env \<Rightarrow> string \<Rightarrow> model_args \<Rightarrow> scene \<Rightarrow> (error + model) \<times> scene" where
  "addModel e uuid args s =
     (case ImportMeshAsync e (margs_url args) of
        Inl err \<Rightarrow> (Inl err, requested (margs_url args) s)
      | Inr a \<Rightarrow>
          let (data, s1) = import_asset a (requested (margs_url args) s);
              nm = margs_name args;
              scale = default 15 (margs_scale args);
              visibility = default False (margs_visibility args);
              (res, s2) = (case margs_process args of
                             None \<Rightarrow> processModelData data JUndefined s1
                           | Some process \<Rightarrow> (process data, s1))
          in (case res of
                Inl err \<Rightarrow> (Inl err, s2)
              | Inr model \<Rightarrow>
                  (let (rootM, s3) = new_Mesh (nm @ '' Root'') s2;
                       s4 = s3\<lparr>materials :=
                              map (\<lambda>m. m\<lparr>m_useLogarithmicDepth := True\<rparr>) (materials s3)\<rparr>
                   in (case model_mesh model of
                         None \<Rightarrow> (Inl TypeError, s4)
                       | Some mesh \<Rightarrow>
                           (let s5 = upd_mesh mesh (\<lambda>n. n\<lparr>n_parent := Some rootM\<rparr>) s4;
                                s6 = upd_mesh mesh (\<lambda>n. n\<lparr>n_scaling := setAll scale\<rparr>) s5;
                                s7 = addEventListener (dataEvent uuid nm)
                                       (ModelDataListener mesh) s6;
                                s8 = addRoot uuid rootM nm visibility s7
                            in (Inr model, s8))))))"

section \<open>\<open>addVideo\<close> and \<open>addImage\<close>\<close>

record media_args =
  vargs_src :: media_src
  vargs_name :: string
  vargs_scale :: "real option"
  vargs_visibility :: "bool option"

definition addVideo ::
  "env \<Rightarrow> string \<Rightarrow> media_args \<Rightarrow> scene \<Rightarrow> (error + media_src option) \<times> scene" where
  "addVideo e uuid args s =
     (let src = vargs_src args;
          nm = vargs_name args;
          scale = default 1 (vargs_scale args);
          visibility = default False (vargs_visibility args);
          (rootM, s1) = new_Mesh (nm @ '' Root'') s;
          (plane, s2) = CreatePlane (nm @ '' Plane'') (16 * 60) (9 * 60) s1;
          (material, s3) = new_StandardMaterial (''Video Material - '' @ nm) s2;
          (texture, s4) = new_texture
             \<lparr>t_ctor = VideoTexture (''Video - '' @ nm) src False True True,
              t_video = Some src,
              t_loadError = texture_load e (VideoTexture (''Video - '' @ nm) src False True True)\<rparr>
             s3;
          s5 = upd_mesh plane (\<lambda>n. n\<lparr>n_material := Some (MaterialRef material)\<rparr>) s4;
          s6 = upd_material material (\<lambda>m. m\<lparr>m_diffuseColor := Color3_Black\<rparr>) s5;
          s7 = upd_material material (\<lambda>m. m\<lparr>m_emissiveTexture := Some texture\<rparr>) s6;
          s8 = upd_mesh plane (\<lambda>n. n\<lparr>n_parent := Some rootM\<rparr>) s7;
          s9 = upd_mesh plane (\<lambda>n. n\<lparr>n_scaling := setAll scale\<rparr>) s8;
          s10 = upd_mesh plane (\<lambda>n. n\<lparr>n_rotation := (n_rotation n)\<lparr>vx := pi\<rparr>\<rparr>) s9;
          s11 = addEventListener (dataEvent uuid nm) (VideoDataListener plane) s10;
          s12 = addRoot uuid rootM nm visibility s11
      in (Inr (t_video (textures s12 ! texture)), s12))"

text \<open>
  \<open>addImage\<close>: the variable \<open>texture\<close> is declared without a value, and the test of the
  branch reads it.
\<close>

definition addImage ::
  "env \<Rightarrow> string \<Rightarrow> media_args \<Rightarrow> scene \<Rightarrow> (error + nat) \<times> scene" where
  "addImage e uuid args s =
     (let src = vargs_src args;
          nm = vargs_name args;
          scale = default 1 (vargs_scale args);
          visibility = default False (vargs_visibility args);
          (rootM, s1) = new_Mesh (nm @ '' Root'') s;
          (plane, s2) = CreatePlane (nm @ '' Plane'') (16 * 60) (9 * 60) s1;
          (material, s3) = new_StandardMaterial (nm @ '' Image Material'') s2;
          texture0 = JUndefined;
          ctor = (if typeof texture0 = ''string''
                  then Texture (Some src) False True None
                  else Texture None False True (Some src));
          (texture, s4) = new_texture
             \<lparr>t_ctor = ctor, t_video = None, t_loadError = texture_load e ctor\<rparr> s3;
          s5 = upd_mesh plane (\<lambda>n. n\<lparr>n_material := Some (TextureRef texture)\<rparr>) s4;
          s6 = upd_material material (\<lambda>m. m\<lparr>m_diffuseColor := Color3_Black\<rparr>) s5;
          s7 = upd_material material (\<lambda>m. m\<lparr>m_emissiveTexture := Some texture\<rparr>) s6;
          s8 = upd_mesh plane (\<lambda>n. n\<lparr>n_parent := Some rootM\<rparr>) s7;
          s9 = upd_mesh plane (\<lambda>n. n\<lparr>n_scaling := setAll scale\<rparr>) s8;
          s10 = upd_mesh plane (\<lambda>n. n\<lparr>n_rotation := (n_rotation n)\<lparr>vx := pi\<rparr>\<rparr>) s9;
          s11 = addEventListener (dataEvent uuid nm) (ImageDataListener plane) s10;
          s12 = addRoot uuid rootM nm visibility s11
      in (Inr plane, s12))"

section \<open>Well-formed scenes\<close>

text \<open>
  What holds of the listeners in every scene the renderer builds: a listener refers to a
  mesh of the scene and is registered under an event name of its own kind (the three
  prefixes differ), the root of a pose listener has no parent, and no two pose listeners
  and no two tracking-lost listeners have the same root.
\<close>

fun target :: "handler \<Rightarrow> nat" where
  "target (PoseListener r) = r"
| "target (TrackingLostListener r v) = r"
| "target (ModelDataListener m) = m"
| "target (VideoDataListener p) = p"
| "target (ImageDataListener p) = p"

fun registered_for :: "handler \<Rightarrow> string \<Rightarrow> bool" where
  "registered_for (PoseListener r) ev = (take 15 ev = ''getMatrixGL_RH-'')"
| "registered_for (TrackingLostListener r v) ev = (take 16 ev = ''nftTrackingLost-'')"
| "registered_for (ModelDataListener m) ev = (take 11 ev = ''getNFTData-'')"
| "registered_for (VideoDataListener p) ev = (take 11 ev = ''getNFTData-'')"
| "registered_for (ImageDataListener p) ev = (take 11 ev = ''getNFTData-'')"

fun unparented_root :: "node list \<Rightarrow> handler \<Rightarrow> bool" where
  "unparented_root ms (PoseListener r) = (n_parent (ms ! r) = None)"
| "unparented_root ms h = True"

definition listener_ok :: "node list \<Rightarrow> string \<times> handler \<Rightarrow> bool" where
  "listener_ok ms l =
     (target (snd l) < length ms \<and> registered_for (snd l) (fst l) \<and> unparented_root ms (snd l))"

fun is_pose :: "handler \<Rightarrow> bool" where
  "is_pose (PoseListener r) = True"
| "is_pose h = False"

fun is_lost :: "handler \<Rightarrow> bool" where
  "is_lost (TrackingLostListener r v) = True"
| "is_lost h = False"

definition pose_targets :: "scene \<Rightarrow> nat list" where
  "pose_targets s = map (target \<circ> snd) (filter (is_pose \<circ> snd) (listeners s))"

definition lost_targets :: "scene \<Rightarrow> nat list" where
  "lost_targets s = map (target \<circ> snd) (filter (is_lost \<circ> snd) (listeners s))"

text \<open>
  The anchors of a marker name: the meshes that the listeners of the marker's pose event
  hold, in the order of registration.
\<close>

definition anchors :: "string \<Rightarrow> string \<Rightarrow> scene \<Rightarrow> nat list" where
  "anchors uuid nm s = map target (listeners_of (poseEvent uuid nm) s)"

definition scene_ok :: "scene \<Rightarrow> bool" where
  "scene_ok s = (list_all (listener_ok (meshes s)) (listeners s) \<and> distinct (pose_targets s)
     \<and> distinct (lost_targets s))"

text \<open>What the pose listener leaves in its root, for a root without parent.\<close>

definition pose_of :: "('m, 'q) mathlib \<Rightarrow> (nat \<times> real) list \<Rightarrow> node \<Rightarrow> node" where
  "pose_of lib obj nd = nd\<lparr>n_enabled := True,
     n_rotation := toEulerAngles lib (fromRotationMatrix lib
                     (getRotationMatrix lib (objectToMatrix lib obj))),
     n_position := TransformCoordinates lib Vector3_Zero (objectToMatrix lib obj)\<rparr>"

text \<open>
  The \<open>enabled\<close> flag of mesh \<open>i\<close> after the tracking-lost listeners \<open>hs\<close> have run.
\<close>

fun lost_enabled :: "handler list \<Rightarrow> nat \<Rightarrow> bool \<Rightarrow> bool" where
  "lost_enabled [] i b = b"
| "lost_enabled (TrackingLostListener r v # hs) i b = lost_enabled hs i (if r = i then v else b)"
| "lost_enabled (h # hs) i b = lost_enabled hs i b"

text \<open>
  Parts of \<open>_processModelData\<close> under names of their own, for the proofs: the loop that
  stops the animation groups, and the scene after the root mesh was renamed, the default
  light disposed of and the animations stopped.
\<close>

definition stop_all :: "nat list \<Rightarrow> scene \<Rightarrow> scene" where
  "stop_all gs s = foldl (\<lambda>s' animationGroup. stop animationGroup s') s gs"

definition renamed_root :: "import_data \<Rightarrow> jsval \<Rightarrow> nat \<Rightarrow> scene \<Rightarrow> scene" where
  "renamed_root data nm mesh s =
     (let s1 = upd_mesh mesh (\<lambda>n. n\<lparr>n_name := js_string nm @ '' Mesh''\<rparr>) s;
          s2 = upd_mesh mesh (\<lambda>n. n\<lparr>n_id := n_name n\<rparr>) s1;
          light = find (\<lambda>mesh. n_id (meshes s2 ! mesh) = ''Default Light'') (d_meshes data);
          s3 = (case light of None \<Rightarrow> s2 | Some l \<Rightarrow> dispose l s2)
      in stop_all (d_animationGroups data) s3)"

text \<open>
  A processing function of a caller that returns, as the mesh of its model, one of the
  meshes of the imported data.
\<close>

definition returns_imported :: "(import_data \<Rightarrow> error + model) \<Rightarrow> bool" where
  "returns_imported process =
     (\<forall>data model mesh. process data = Inr model \<longrightarrow> model_mesh model = Some mesh
        \<longrightarrow> mesh \<in> set (d_meshes data))"

text \<open>
  Parts of \<open>addModel\<close> under names of their own, for the proofs: the scene with the new
  root and all materials flagged, the scene after the model was attached to the root, and
  the processing step after the import.
\<close>

definition with_root :: "model_args \<Rightarrow> scene \<Rightarrow> scene" where
  "with_root args s2 =
     (let (rootM, s3) = new_Mesh (margs_name args @ '' Root'') s2
      in s3\<lparr>materials := map (\<lambda>m. m\<lparr>m_useLogarithmicDepth := True\<rparr>) (materials s3)\<rparr>)"

definition attach_model :: "string \<Rightarrow> model_args \<Rightarrow> nat \<Rightarrow> scene \<Rightarrow> scene" where
  "attach_model uuid args mesh s2 =
     (let rootM = length (meshes s2);
          s4 = with_root args s2;
          s5 = upd_mesh mesh (\<lambda>n. n\<lparr>n_parent := Some rootM\<rparr>) s4;
          s6 = upd_mesh mesh (\<lambda>n. n\<lparr>n_scaling := setAll (default 15 (margs_scale args))\<rparr>) s5;
          s7 = addEventListener (dataEvent uuid (margs_name args)) (ModelDataListener mesh) s6
      in addRoot uuid rootM (margs_name args) (default False (margs_visibility args)) s7)"

definition processed :: "model_args \<Rightarrow> asset \<Rightarrow> scene \<Rightarrow> (error + model) \<times> scene" where
  "processed args a s =
     (case margs_process args of
        None \<Rightarrow> processModelData (fst (import_asset a s)) JUndefined (snd (import_asset a s))
      | Some process \<Rightarrow> (process (fst (import_asset a s)), snd (import_asset a s)))"

text \<open>
  The scenes that the renderer builds: the scene of the constructor, and from a built scene
  the scene after a call of an attacher, or after an event that the tracker dispatched. A
  processing function that a caller passes to \<open>addModel\<close> is taken to return a mesh of
  the import.
\<close>

inductive built :: "('m, 'q) mathlib \<Rightarrow> env \<Rightarrow> string \<Rightarrow> scene \<Rightarrow> bool"
  for lib :: "('m, 'q) mathlib" and e :: env and uuid :: string where
  constructed: "built lib e uuid SceneRendererBJS"
| video: "built lib e uuid s \<Longrightarrow> built lib e uuid (snd (addVideo e uuid a s))"
| image: "built lib e uuid s \<Longrightarrow> built lib e uuid (snd (addImage e uuid a s))"
| model: "built lib e uuid s \<Longrightarrow> \<forall>p. margs_process ma = Some p \<longrightarrow> returns_imported p
    \<Longrightarrow> built lib e uuid (snd (addModel e uuid ma s))"
| event: "built lib e uuid s \<Longrightarrow> dispatchEvent lib ev d s = Some s'
    \<Longrightarrow> built lib e uuid s'"

section \<open>The engine's mathematics, from the specification\<close>

text \<open>
  Modelled from the spec: the matrix, quaternion and vector operations of the scene graph
  engine, which the repository imports and does not contain. The definitions follow
  section 4.1 of the specification over the reals: a matrix is its 16 entries in the order
  of the flat payload (entry \<open>4 * c + r\<close> is row \<open>r\<close> of column \<open>c\<close>), a quaternion is
  \<open>(x, y, z, w)\<close>. They serve for concrete instances of the theorems, which hold for every
  engine.
\<close>

record quaternion =
  qx :: real
  qy :: real
  qz :: real
  qw :: real

text \<open>Modelled from the spec: the two-argument arc tangent of the Euler angle formulas.\<close>

definition atan2 :: "real \<Rightarrow> real \<Rightarrow> real" where
  "atan2 y x =
     (if 0 < x then arctan (y / x)
      else if x < 0 \<and> 0 \<le> y then arctan (y / x) + pi
      else if x < 0 \<and> y < 0 then arctan (y / x) - pi
      else if 0 < y then pi / 2
      else if y < 0 then - pi / 2
      else 0)"

text \<open>
  Modelled from the spec: "reinterpret the flat indexed payload as a 4x4 matrix (no
  validation of shape)"; an entry the payload lacks is read as 0 (a degenerate transform).
\<close>

definition spec_FromArray :: "real option list \<Rightarrow> real list" where
  "spec_FromArray array =
     map (\<lambda>i. case (if i < length array then array ! i else None) of
                 Some v \<Rightarrow> v | None \<Rightarrow> 0) [0..<16]"

text \<open>Modelled from the spec: "extract the upper-left 3x3 rotation block".\<close>

definition spec_getRotationMatrix :: "real list \<Rightarrow> real list" where
  "spec_getRotationMatrix m =
     [m ! 0, m ! 1, m ! 2, 0, m ! 4, m ! 5, m ! 6, 0, m ! 8, m ! 9, m ! 10, 0, 0, 0, 0, 1]"

text \<open>
  Modelled from the spec: "convert to a rotation quaternion using a standard
  matrix-to-quaternion algorithm", which branches on the trace and else takes the largest
  diagonal term.
\<close>

definition spec_fromRotationMatrix :: "real list \<Rightarrow> quaternion" where
  "spec_fromRotationMatrix m =
     (let m11 = m ! 0; m12 = m ! 4; m13 = m ! 8;
          m21 = m ! 1; m22 = m ! 5; m23 = m ! 9;
          m31 = m ! 2; m32 = m ! 6; m33 = m ! 10;
          trace = m11 + m22 + m33
      in if 0 < trace then
           (let k = 2 * sqrt (trace + 1)
            in \<lparr>qx = (m32 - m23) / k, qy = (m13 - m31) / k, qz = (m21 - m12) / k, qw = k / 4\<rparr>)
         else if m22 < m11 \<and> m33 < m11 then
           (let k = 2 * sqrt (1 + m11 - m22 - m33)
            in \<lparr>qx = k / 4, qy = (m12 + m21) / k, qz = (m13 + m31) / k, qw = (m32 - m23) / k\<rparr>)
         else if m33 < m22 then
           (let k = 2 * sqrt (1 + m22 - m11 - m33)
            in \<lparr>qx = (m12 + m21) / k, qy = k / 4, qz = (m23 + m32) / k, qw = (m13 - m31) / k\<rparr>)
         else
           (let k = 2 * sqrt (1 + m33 - m11 - m22)
            in \<lparr>qx = (m13 + m31) / k, qy = (m23 + m32) / k, qz = k / 4, qw = (m21 - m12) / k\<rparr>))"

text \<open>
  Modelled from the spec: "convert the quaternion to Euler angles (X-Y-Z intrinsic order)",
  the angles of the rotation \<open>Rx * Ry * Rz\<close> that the quaternion stands for.
\<close>

definition spec_toEulerAngles :: "quaternion \<Rightarrow> vec3" where
  "spec_toEulerAngles q =
     \<lparr>vx = atan2 (2 * (qw q * qx q - qy q * qz q)) (1 - 2 * (qx q * qx q + qy q * qy q)),
      vy = arcsin (2 * (qx q * qz q + qw q * qy q)),
      vz = atan2 (2 * (qw q * qz q - qx q * qy q)) (1 - 2 * (qy q * qy q + qz q * qz q))\<rparr>"

text \<open>
  Modelled from the spec: "transforming the origin point through the full matrix", the
  homogeneous transform of a point with the division by the fourth coordinate.
\<close>

definition spec_TransformCoordinates :: "vec3 \<Rightarrow> real list \<Rightarrow> vec3" where
  "spec_TransformCoordinates v m =
     (let w = vx v * m ! 3 + vy v * m ! 7 + vz v * m ! 11 + m ! 15
      in \<lparr>vx = (vx v * m ! 0 + vy v * m ! 4 + vz v * m ! 8 + m ! 12) / w,
          vy = (vx v * m ! 1 + vy v * m ! 5 + vz v * m ! 9 + m ! 13) / w,
          vz = (vx v * m ! 2 + vy v * m ! 6 + vz v * m ! 10 + m ! 14) / w\<rparr>)"

text \<open>
  Modelled from the spec: the identity matrix, and the engine as a whole. The anchors of
  the specification have no parent, so it does not say what the world matrix of a parent
  is; the identity stands for it.
\<close>

definition spec_Identity :: "real list" where
  "spec_Identity = [1, 0, 0, 0, 0, 1, 0, 0, 0, 0, 1, 0, 0, 0, 0, 1]"

definition spec_math :: "(real list, quaternion) mathlib" where
  "spec_math = \<lparr>FromArray = spec_FromArray, getRotationMatrix = spec_getRotationMatrix,
     fromRotationMatrix = spec_fromRotationMatrix, toEulerAngles = spec_toEulerAngles,
     TransformCoordinates = spec_TransformCoordinates,
     invertedWorldMatrix = (\<lambda>ms p. spec_Identity)\<rparr>"



section \<open>The usage of the README\<close>

text \<open>
  The calls of the README's example, on a marker named \<open>marker-name\<close>: a video from an
  element of the page, and a model whose file holds the root mesh, a cube, the default
  light and one animation. In the environment of the example the importer loads the
  model's URL and no other, and no texture loads from a URL.
\<close>

definition readme_asset :: asset where
  "readme_asset = \<lparr>a_meshes = [(''__root__'', ''__root__''), (''Cube'', ''Cube''),
       (''Default Light'', ''Default Light'')],
     a_animationGroups = [(''Animation'', True)],
     a_materials = [''Material'']\<rparr>"

definition readme_env :: env where
  "readme_env = \<lparr>ImportMeshAsync = (\<lambda>url. if url = ''url/to/model.glb'' then Inr readme_asset
                                        else Inl (LoadError url)),
     textureLoad = (\<lambda>src. case src of Url url \<Rightarrow> Some (LoadError url) | Element el \<Rightarrow> None)\<rparr>"

definition readme_video :: media_args where
  "readme_video = \<lparr>vargs_src = Element 0, vargs_name = ''marker-name'', vargs_scale = None,
     vargs_visibility = None\<rparr>"

definition readme_model :: model_args where
  "readme_model = \<lparr>margs_url = ''url/to/model.glb'', margs_name = ''marker-name'',
     margs_scale = None, margs_visibility = None, margs_process = None\<rparr>"

definition readme_video_scene :: scene where
  "readme_video_scene = snd (addVideo readme_env ''uuid'' readme_video SceneRendererBJS)"

definition readme_scene :: scene where
  "readme_scene = snd (addModel readme_env ''uuid'' readme_model readme_video_scene)"

section \<open>Event names\<close>

lemma kind_pose [simp]: "take 15 (poseEvent u n) = ''getMatrixGL_RH-''"
  "take 16 (poseEvent u n) \<noteq> ''nftTrackingLost-''"
  "take 11 (poseEvent u n) \<noteq> ''getNFTData-''"
  by (simp_all add: poseEvent_def)

lemma kind_lost [simp]: "take 15 (lostEvent u n) \<noteq> ''getMatrixGL_RH-''"
  "take 16 (lostEvent u n) = ''nftTrackingLost-''"
  "take 11 (lostEvent u n) \<noteq> ''getNFTData-''"
  by (simp_all add: lostEvent_def)

lemma kind_data [simp]: "take 15 (dataEvent u n) \<noteq> ''getMatrixGL_RH-''"
  "take 16 (dataEvent u n) \<noteq> ''nftTrackingLost-''"
  "take 11 (dataEvent u n) = ''getNFTData-''"
  by (simp_all add: dataEvent_def)

lemma event_inj [simp]: "poseEvent u n = poseEvent u n' \<longleftrightarrow> n = n'"
  "lostEvent u n = lostEvent u n' \<longleftrightarrow> n = n'"
  "dataEvent u n = dataEvent u n' \<longleftrightarrow> n = n'"
  by (simp_all add: poseEvent_def lostEvent_def dataEvent_def)

lemma event_kinds_differ [simp]:
  "dataEvent u n \<noteq> poseEvent u' n'" "poseEvent u' n' \<noteq> dataEvent u n"
  "lostEvent u n \<noteq> poseEvent u' n'" "poseEvent u' n' \<noteq> lostEvent u n"
  "dataEvent u n \<noteq> lostEvent u' n'" "lostEvent u' n' \<noteq> dataEvent u n"
  by (simp_all add: dataEvent_def poseEvent_def lostEvent_def)

section \<open>Updates of the scene\<close>

lemma map_update_same:
  "f (g (xs ! i)) = f (xs ! i) \<Longrightarrow> map f (xs[i := g (xs ! i)]) = map f xs"
  by (cases "i < length xs") (simp_all add: map_update list_update_same_conv list_update_beyond)

lemma upd_mesh_frame [simp]:
  "materials (upd_mesh r f s) = materials s"
  "textures (upd_mesh r f s) = textures s"
  "animationGroups (upd_mesh r f s) = animationGroups s"
  "listeners (upd_mesh r f s) = listeners s"
  "length (meshes (upd_mesh r f s)) = length (meshes s)"
  by (simp_all add: upd_mesh_def)

lemma upd_mesh_nth:
  "i < length (meshes s) \<Longrightarrow>
     meshes (upd_mesh r f s) ! i = (if i = r then f (meshes s ! i) else meshes s ! i)"
  by (simp add: upd_mesh_def nth_list_update)

lemma upd_mesh_other [simp]: "i \<noteq> r \<Longrightarrow> meshes (upd_mesh r f s) ! i = meshes s ! i"
  by (simp add: upd_mesh_def)

lemma upd_mesh_parents:
  "n_parent (f (meshes s ! r)) = n_parent (meshes s ! r) \<Longrightarrow>
     map n_parent (meshes (upd_mesh r f s)) = map n_parent (meshes s)"
  by (simp add: upd_mesh_def map_update_same)

lemma upd_mesh_twice:
  "upd_mesh m f (upd_mesh m g s) = upd_mesh m (\<lambda>n. f (g n)) s"
  by (cases "m < length (meshes s)") (simp_all add: upd_mesh_def list_update_beyond)

lemma upd_animationGroup_frame [simp]:
  "meshes (upd_animationGroup g f s) = meshes s"
  "materials (upd_animationGroup g f s) = materials s"
  "textures (upd_animationGroup g f s) = textures s"
  "listeners (upd_animationGroup g f s) = listeners s"
  "length (animationGroups (upd_animationGroup g f s)) = length (animationGroups s)"
  by (simp_all add: upd_animationGroup_def)

lemma stop_names:
  "map ag_name (animationGroups (stop g s)) = map ag_name (animationGroups s)"
  by (simp add: stop_def upd_animationGroup_def map_update_same)

lemma stop_all_frame [simp]:
  "meshes (stop_all gs s) = meshes s"
  "materials (stop_all gs s) = materials s"
  "textures (stop_all gs s) = textures s"
  "listeners (stop_all gs s) = listeners s"
  "length (animationGroups (stop_all gs s)) = length (animationGroups s)"
  "map ag_name (animationGroups (stop_all gs s)) = map ag_name (animationGroups s)"
  unfolding stop_all_def
  by (induction gs arbitrary: s) (simp_all add: stop_names, simp_all add: stop_def)

lemma stop_all_name:
  "g < length (animationGroups s) \<Longrightarrow>
     ag_name (animationGroups (stop_all gs s) ! g) = ag_name (animationGroups s ! g)"
  using stop_all_frame(6) [of gs s] stop_all_frame(5) [of gs s]
  by (metis nth_map)

section \<open>\<open>_processModelData\<close>\<close>

lemma processModelData_None:
  assumes "find (\<lambda>mesh. n_id (meshes s ! mesh) = ''__root__'') (d_meshes data) = None"
  shows "processModelData data nm s = (Inl TypeError, s)"
  using assms by (simp add: processModelData_def)

lemma find_SomeD: "find P xs = Some x \<Longrightarrow> x \<in> set xs \<and> P x"
  by (auto simp: find_Some_iff)

lemma renamed_root_frame [simp]:
  "materials (renamed_root data nm mesh s) = materials s"
  "textures (renamed_root data nm mesh s) = textures s"
  "listeners (renamed_root data nm mesh s) = listeners s"
  "length (meshes (renamed_root data nm mesh s)) = length (meshes s)"
  "length (animationGroups (renamed_root data nm mesh s)) = length (animationGroups s)"
  "map ag_name (animationGroups (renamed_root data nm mesh s)) = map ag_name (animationGroups s)"
  by (simp_all add: renamed_root_def Let_def dispose_def split: option.split)

lemma renamed_root_parents [simp]:
  "map n_parent (meshes (renamed_root data nm mesh s)) = map n_parent (meshes s)"
  by (simp add: renamed_root_def Let_def dispose_def upd_mesh_parents split: option.split)

lemma renamed_root_other:
  assumes "mesh \<in> set (d_meshes data)" "i \<notin> set (d_meshes data)"
  shows "meshes (renamed_root data nm mesh s) ! i = meshes s ! i"
proof -
  have "i \<noteq> mesh" using assms by auto
  moreover have "\<And>l P. find P (d_meshes data) = Some l \<Longrightarrow> i \<noteq> l"
    using assms(2) by (auto dest: find_SomeD)
  ultimately show ?thesis
    by (auto simp: renamed_root_def Let_def dispose_def split: option.split)
qed

lemma renamed_root_mesh:
  assumes "mesh < length (meshes s)"
  shows "n_name (meshes (renamed_root data nm mesh s) ! mesh) = js_string nm @ '' Mesh''"
    and "n_id (meshes (renamed_root data nm mesh s) ! mesh) = js_string nm @ '' Mesh''"
  using assms
  by (simp_all add: renamed_root_def Let_def dispose_def upd_mesh_nth split: option.split)

lemma processModelData_Some:
  assumes "find (\<lambda>mesh. n_id (meshes s ! mesh) = ''__root__'') (d_meshes data) = Some mesh"
  shows "processModelData data nm s =
     (let s4 = renamed_root data nm mesh s
      in case d_animationGroups data of
           [] \<Rightarrow> (Inr \<lparr>model_mesh = Some mesh, model_animation = None,
                       model_animations = Some (d_animationGroups data)\<rparr>, s4)
         | firstAnim # rest \<Rightarrow>
             if ag_name (animationGroups s4 ! firstAnim) = ''All Animations''
                \<or> ag_name (animationGroups s4 ! firstAnim) = ''Animation''
             then (Inr \<lparr>model_mesh = Some mesh, model_animation = Some firstAnim,
                         model_animations = None\<rparr>,
                   upd_animationGroup firstAnim
                     (\<lambda>a. a\<lparr>ag_name := js_string nm @ '' Animation''\<rparr>) s4)
             else (Inr \<lparr>model_mesh = Some mesh, model_animation = None,
                         model_animations = Some (d_animationGroups data)\<rparr>, s4))"
  using assms
  by (simp add: processModelData_def renamed_root_def stop_all_def Let_def)

lemma processModelData_frame:
  assumes "find (\<lambda>mesh. n_id (meshes s ! mesh) = ''__root__'') (d_meshes data) = Some mesh"
  shows "\<exists>model s'. processModelData data nm s = (Inr model, s') \<and> model_mesh model = Some mesh
     \<and> listeners s' = listeners s \<and> length (meshes s') = length (meshes s)
     \<and> materials s' = materials s \<and> textures s' = textures s
     \<and> length (animationGroups s') = length (animationGroups s)
     \<and> map n_parent (meshes s') = map n_parent (meshes s)
     \<and> (\<forall>i. i \<notin> set (d_meshes data) \<longrightarrow> meshes s' ! i = meshes s ! i)
     \<and> (mesh < length (meshes s) \<longrightarrow>
           n_name (meshes s' ! mesh) = js_string nm @ '' Mesh''
         \<and> n_id (meshes s' ! mesh) = js_string nm @ '' Mesh'')"
proof -
  have m: "mesh \<in> set (d_meshes data)" using assms by (auto dest: find_SomeD)
  show ?thesis
    unfolding processModelData_Some [OF assms] Let_def
    using m renamed_root_other [OF m] renamed_root_mesh [of mesh s data nm]
    by (auto split: list.split)
qed

section \<open>The scene after an attacher\<close>

lemmas attach_defs = Let_def new_Mesh_def CreatePlane_def new_StandardMaterial_def
      new_texture_def upd_mesh_def upd_material_def addEventListener_def addRoot_def split_def

lemma addVideo_scene:
  "snd (addVideo e uuid args s) =
     s\<lparr>meshes := meshes s @
          [Mesh (vargs_name args @ '' Root''),
           (Mesh (vargs_name args @ '' Plane''))
             \<lparr>n_plane := Some (960, 540),
              n_material := Some (MaterialRef (length (materials s))),
              n_parent := Some (length (meshes s)),
              n_scaling := setAll (default 1 (vargs_scale args)),
              n_rotation := Vector3_Zero\<lparr>vx := pi\<rparr>\<rparr>],
       materials := materials s @
          [(StandardMaterial (''Video Material - '' @ vargs_name args))
             \<lparr>m_diffuseColor := Color3_Black,
              m_emissiveTexture := Some (length (textures s))\<rparr>],
       textures := textures s @
          [\<lparr>t_ctor = VideoTexture (''Video - '' @ vargs_name args) (vargs_src args) False True True,
            t_video = Some (vargs_src args),
            t_loadError = textureLoad e (vargs_src args)\<rparr>],
       listeners := listeners s @
          [(dataEvent uuid (vargs_name args), VideoDataListener (Suc (length (meshes s)))),
           (poseEvent uuid (vargs_name args), PoseListener (length (meshes s))),
           (lostEvent uuid (vargs_name args),
              TrackingLostListener (length (meshes s)) (default False (vargs_visibility args)))]\<rparr>"
  by (simp add: addVideo_def attach_defs Mesh_def StandardMaterial_def)

lemma addVideo_result:
  "fst (addVideo e uuid args s) = Inr (Some (vargs_src args))"
  by (simp add: addVideo_def attach_defs)

lemma addImage_scene:
  "snd (addImage e uuid args s) =
     s\<lparr>meshes := meshes s @
          [Mesh (vargs_name args @ '' Root''),
           (Mesh (vargs_name args @ '' Plane''))
             \<lparr>n_plane := Some (960, 540),
              n_material := Some (TextureRef (length (textures s))),
              n_parent := Some (length (meshes s)),
              n_scaling := setAll (default 1 (vargs_scale args)),
              n_rotation := Vector3_Zero\<lparr>vx := pi\<rparr>\<rparr>],
       materials := materials s @
          [(StandardMaterial (vargs_name args @ '' Image Material''))
             \<lparr>m_diffuseColor := Color3_Black,
              m_emissiveTexture := Some (length (textures s))\<rparr>],
       textures := textures s @
          [\<lparr>t_ctor = Texture None False True (Some (vargs_src args)),
            t_video = None,
            t_loadError = None\<rparr>],
       listeners := listeners s @
          [(dataEvent uuid (vargs_name args), ImageDataListener (Suc (length (meshes s)))),
           (poseEvent uuid (vargs_name args), PoseListener (length (meshes s))),
           (lostEvent uuid (vargs_name args),
              TrackingLostListener (length (meshes s)) (default False (vargs_visibility args)))]\<rparr>"
  by (simp add: addImage_def attach_defs Mesh_def StandardMaterial_def)

lemma addImage_result:
  "fst (addImage e uuid args s) = Inr (Suc (length (meshes s)))"
  by (simp add: addImage_def attach_defs)

lemma requested_frame [simp]:
  "meshes (requested url s) = meshes s"
  "materials (requested url s) = materials s"
  "textures (requested url s) = textures s"
  "animationGroups (requested url s) = animationGroups s"
  "listeners (requested url s) = listeners s"
  "renderLoop (requested url s) = renderLoop s"
  "importRequests (requested url s) = importRequests s @ [url]"
  by (simp_all add: requested_def)

lemma addModel_unfold:
  "addModel e uuid args s =
     (case ImportMeshAsync e (margs_url args) of
        Inl err \<Rightarrow> (Inl err, requested (margs_url args) s)
      | Inr a \<Rightarrow>
          (case fst (processed args a (requested (margs_url args) s)) of
             Inl err \<Rightarrow> (Inl err, snd (processed args a (requested (margs_url args) s)))
           | Inr model \<Rightarrow>
               (case model_mesh model of
                  None \<Rightarrow> (Inl TypeError,
                    with_root args (snd (processed args a (requested (margs_url args) s))))
                | Some mesh \<Rightarrow> (Inr model,
                    attach_model uuid args mesh
                      (snd (processed args a (requested (margs_url args) s)))))))"
  by (simp add: addModel_def processed_def attach_model_def with_root_def new_Mesh_def
      Let_def split_def split: sum.split option.split)

lemma addModel_rejected:
  "ImportMeshAsync e (margs_url args) = Inl err \<Longrightarrow>
     addModel e uuid args s = (Inl err, requested (margs_url args) s)"
  by (simp add: addModel_unfold)

lemma addModel_resolved:
  assumes "fst (addModel e uuid args s) = Inr model"
  obtains a mesh where "ImportMeshAsync e (margs_url args) = Inr a"
    "fst (processed args a (requested (margs_url args) s)) = Inr model"
    "model_mesh model = Some mesh"
    "snd (addModel e uuid args s) =
       attach_model uuid args mesh (snd (processed args a (requested (margs_url args) s)))"
  using assms unfolding addModel_unfold
  by (auto split: sum.splits option.splits)

lemma import_asset_simps [simp]:
  "d_meshes (fst (import_asset a s)) = [length (meshes s) ..< length (meshes s) + length (a_meshes a)]"
  "d_animationGroups (fst (import_asset a s)) =
     [length (animationGroups s) ..< length (animationGroups s) + length (a_animationGroups a)]"
  "meshes (snd (import_asset a s)) = meshes s @ map imported_mesh (a_meshes a)"
  "animationGroups (snd (import_asset a s)) =
     animationGroups s @ map imported_animationGroup (a_animationGroups a)"
  "materials (snd (import_asset a s)) = materials s @ map StandardMaterial (a_materials a)"
  "textures (snd (import_asset a s)) = textures s"
  "listeners (snd (import_asset a s)) = listeners s"
  by (simp_all add: import_asset_def)

lemma import_asset_ids:
  assumes "length (meshes s) \<le> i" "i < length (meshes s) + length (a_meshes a)"
  shows "n_id (meshes (snd (import_asset a s)) ! i) = fst (a_meshes a ! (i - length (meshes s)))"
  using assms by (simp add: nth_append imported_mesh_def)

lemma import_asset_no_root:
  assumes "''__root__'' \<notin> fst ` set (a_meshes a)"
  shows "find (\<lambda>mesh. n_id (meshes (snd (import_asset a s)) ! mesh) = ''__root__'')
           (d_meshes (fst (import_asset a s))) = None"
proof -
  have "\<And>i. length (meshes s) \<le> i \<Longrightarrow> i < length (meshes s) + length (a_meshes a)
        \<Longrightarrow> n_id (meshes (snd (import_asset a s)) ! i) \<noteq> ''__root__''"
  proof -
    fix i assume i: "length (meshes s) \<le> i" "i < length (meshes s) + length (a_meshes a)"
    then have "a_meshes a ! (i - length (meshes s)) \<in> set (a_meshes a)" by simp
    then show "n_id (meshes (snd (import_asset a s)) ! i) \<noteq> ''__root__''"
      using assms import_asset_ids [OF i] by force
  qed
  then show ?thesis by (simp add: find_None_iff)
qed

text \<open>What the processing step of \<open>addModel\<close> leaves of the scene.\<close>

lemma processed_frame:
  assumes "fst (processed args a s) = Inr model" "model_mesh model = Some mesh"
    and "\<forall>p. margs_process args = Some p \<longrightarrow> returns_imported p"
  shows "length (meshes s) \<le> mesh" "mesh < length (meshes s) + length (a_meshes a)"
    "length (meshes (snd (processed args a s))) = length (meshes s) + length (a_meshes a)"
    "listeners (snd (processed args a s)) = listeners s"
    "textures (snd (processed args a s)) = textures s"
    "\<forall>i < length (meshes s). meshes (snd (processed args a s)) ! i = meshes s ! i"
    "map n_parent (meshes (snd (processed args a s))) =
       map n_parent (meshes s) @ replicate (length (a_meshes a)) None"
proof -
  let ?d = "fst (import_asset a s)" and ?s1 = "snd (import_asset a s)"
  have par1: "map n_parent (meshes ?s1) = map n_parent (meshes s) @ replicate (length (a_meshes a)) None"
    by (simp add: imported_mesh_def Mesh_def map_replicate_const [symmetric] comp_def)
  have old1: "\<forall>i < length (meshes s). meshes ?s1 ! i = meshes s ! i"
    by (simp add: nth_append)
  have all: "(length (meshes s) \<le> mesh \<and> mesh < length (meshes s) + length (a_meshes a))
    \<and> length (meshes (snd (processed args a s))) = length (meshes s) + length (a_meshes a)
    \<and> listeners (snd (processed args a s)) = listeners s
    \<and> textures (snd (processed args a s)) = textures s
    \<and> (\<forall>i < length (meshes s). meshes (snd (processed args a s)) ! i = meshes s ! i)
    \<and> map n_parent (meshes (snd (processed args a s))) =
       map n_parent (meshes s) @ replicate (length (a_meshes a)) None"
  proof (cases "margs_process args")
    case None
    then have p: "processed args a s = processModelData ?d JUndefined ?s1"
      by (simp add: processed_def)
    show ?thesis
    proof (cases "find (\<lambda>mesh. n_id (meshes ?s1 ! mesh) = ''__root__'') (d_meshes ?d)")
      case None
      then show ?thesis using assms(1) p processModelData_None [OF None] by simp
    next
      case (Some m)
      have "m \<in> set (d_meshes ?d)" using Some by (auto dest: find_SomeD)
      then have rng: "length (meshes s) \<le> m \<and> m < length (meshes s) + length (a_meshes a)"
        by simp
      from processModelData_frame [OF Some, of JUndefined] p assms(1,2)
      show ?thesis using par1 old1 rng by auto
    qed
  next
    case (Some p)
    then have "returns_imported p" using assms(3) by simp
    moreover have "p ?d = Inr model" "snd (processed args a s) = ?s1"
      using assms(1) Some by (simp_all add: processed_def)
    ultimately have "mesh \<in> set (d_meshes ?d)"
      using assms(2) unfolding returns_imported_def by blast
    then have rng: "length (meshes s) \<le> mesh \<and> mesh < length (meshes s) + length (a_meshes a)"
      by simp
    show ?thesis
      using rng par1 old1 \<open>snd (processed args a s) = ?s1\<close> by simp
  qed
  show "length (meshes s) \<le> mesh" "mesh < length (meshes s) + length (a_meshes a)"
    "length (meshes (snd (processed args a s))) = length (meshes s) + length (a_meshes a)"
    "listeners (snd (processed args a s)) = listeners s"
    "textures (snd (processed args a s)) = textures s"
    "\<forall>i < length (meshes s). meshes (snd (processed args a s)) ! i = meshes s ! i"
    "map n_parent (meshes (snd (processed args a s))) =
       map n_parent (meshes s) @ replicate (length (a_meshes a)) None"
    using all by simp_all
qed

lemma processed_rejected:
  assumes "fst (processed args a s) = Inl err"
  shows "snd (processed args a s) = snd (import_asset a s)"
proof (cases "margs_process args")
  case None
  let ?d = "fst (import_asset a s)" and ?s1 = "snd (import_asset a s)"
  show ?thesis
  proof (cases "find (\<lambda>mesh. n_id (meshes ?s1 ! mesh) = ''__root__'') (d_meshes ?d)")
    case None
    with \<open>margs_process args = None\<close> show ?thesis
      by (simp add: processed_def processModelData_None)
  next
    case (Some m)
    from processModelData_frame [OF Some, of JUndefined] assms \<open>margs_process args = None\<close>
    show ?thesis by (auto simp: processed_def)
  qed
next
  case (Some p)
  then show ?thesis by (simp add: processed_def)
qed

lemma attach_model_meshes:
  assumes "mesh < length (meshes s2)"
  shows "meshes (attach_model uuid args mesh s2) =
     (meshes s2)[mesh := (meshes s2 ! mesh)\<lparr>n_parent := Some (length (meshes s2)),
                   n_scaling := setAll (default 15 (margs_scale args))\<rparr>]
       @ [Mesh (margs_name args @ '' Root'')]"
  using assms
  by (simp add: attach_model_def with_root_def attach_defs list_update_append1 nth_append)

lemma attach_model_frame:
  "listeners (attach_model uuid args mesh s2) = listeners s2 @
     [(dataEvent uuid (margs_name args), ModelDataListener mesh),
      (poseEvent uuid (margs_name args), PoseListener (length (meshes s2))),
      (lostEvent uuid (margs_name args),
         TrackingLostListener (length (meshes s2)) (default False (margs_visibility args)))]"
  "textures (attach_model uuid args mesh s2) = textures s2"
  "animationGroups (attach_model uuid args mesh s2) = animationGroups s2"
  by (simp_all add: attach_model_def with_root_def attach_defs)

text \<open>The scene after an \<open>addModel\<close> that resolved.\<close>

lemma addModel_attached:
  assumes res: "fst (addModel e uuid args s) = Inr model"
    and imp: "\<forall>p. margs_process args = Some p \<longrightarrow> returns_imported p"
  obtains a mesh where
    "ImportMeshAsync e (margs_url args) = Inr a"
    "model_mesh model = Some mesh"
    "length (meshes s) \<le> mesh" "mesh < length (meshes s) + length (a_meshes a)"
    "length (meshes (snd (addModel e uuid args s))) = Suc (length (meshes s) + length (a_meshes a))"
    "listeners (snd (addModel e uuid args s)) = listeners s @
       [(dataEvent uuid (margs_name args), ModelDataListener mesh),
        (poseEvent uuid (margs_name args), PoseListener (length (meshes s) + length (a_meshes a))),
        (lostEvent uuid (margs_name args),
           TrackingLostListener (length (meshes s) + length (a_meshes a))
             (default False (margs_visibility args)))]"
    "meshes (snd (addModel e uuid args s)) ! (length (meshes s) + length (a_meshes a)) =
       Mesh (margs_name args @ '' Root'')"
    "n_parent (meshes (snd (addModel e uuid args s)) ! mesh) =
       Some (length (meshes s) + length (a_meshes a))"
    "n_scaling (meshes (snd (addModel e uuid args s)) ! mesh) = setAll (default 15 (margs_scale args))"
    "\<forall>i < length (meshes s). meshes (snd (addModel e uuid args s)) ! i = meshes s ! i"
    "textures (snd (addModel e uuid args s)) = textures s"
proof -
  from addModel_resolved [OF res] obtain a mesh where
    a: "ImportMeshAsync e (margs_url args) = Inr a"
    and p: "fst (processed args a (requested (margs_url args) s)) = Inr model"
    and m: "model_mesh model = Some mesh"
    and s': "snd (addModel e uuid args s) =
      attach_model uuid args mesh (snd (processed args a (requested (margs_url args) s)))"
    by blast
  let ?s2 = "snd (processed args a (requested (margs_url args) s))"
  note fr = processed_frame [OF p m imp, unfolded requested_frame]
  have valid: "mesh < length (meshes ?s2)" using fr(2,3) by simp
  note ms = attach_model_meshes [OF valid, of uuid args]
  show ?thesis
  proof (rule that [OF a m fr(1) fr(2)])
    show "length (meshes (snd (addModel e uuid args s))) = Suc (length (meshes s) + length (a_meshes a))"
      using fr(3) by (simp add: s' ms)
    show "listeners (snd (addModel e uuid args s)) = listeners s @
       [(dataEvent uuid (margs_name args), ModelDataListener mesh),
        (poseEvent uuid (margs_name args), PoseListener (length (meshes s) + length (a_meshes a))),
        (lostEvent uuid (margs_name args),
           TrackingLostListener (length (meshes s) + length (a_meshes a))
             (default False (margs_visibility args)))]"
      using fr(3,4) by (simp add: s' attach_model_frame)
    show "meshes (snd (addModel e uuid args s)) ! (length (meshes s) + length (a_meshes a)) =
       Mesh (margs_name args @ '' Root'')"
      using fr(3) by (simp add: s' ms nth_append)
    show "n_parent (meshes (snd (addModel e uuid args s)) ! mesh) =
       Some (length (meshes s) + length (a_meshes a))"
      using fr(3) valid by (simp add: s' ms nth_append)
    show "n_scaling (meshes (snd (addModel e uuid args s)) ! mesh) = setAll (default 15 (margs_scale args))"
      using fr(3) valid by (simp add: s' ms nth_append)
    show "\<forall>i < length (meshes s). meshes (snd (addModel e uuid args s)) ! i = meshes s ! i"
      using fr(1,3,6) valid by (simp add: s' ms nth_append)
    show "textures (snd (addModel e uuid args s)) = textures s"
      using fr(5) by (simp add: s' attach_model_frame)
  qed
qed

section \<open>The listeners\<close>

lemma pose_of_idem [simp]: "pose_of lib obj (pose_of lib obj nd) = pose_of lib obj nd"
  by (simp add: pose_of_def)

lemma pose_of_parent [simp]: "n_parent (pose_of lib obj nd) = n_parent nd"
  by (simp add: pose_of_def)

lemma handle_pose:
  assumes "r < length (meshes s)" "n_parent (meshes s ! r) = None"
  shows "handle lib (PoseListener r) (MatrixDetail obj) s = Some (upd_mesh r (pose_of lib obj) s)"
  using assms
  by (simp add: Let_def applyMatrix_def setEnabled_def setAbsolutePosition_def upd_mesh_def
      pose_of_def)

lemma run_pose:
  assumes "\<forall>h\<in>set hs. \<exists>r. h = PoseListener r \<and> r < length (meshes s) \<and> n_parent (meshes s ! r) = None"
  shows "run_listeners lib hs (MatrixDetail obj) s =
     Some (s\<lparr>meshes := map (\<lambda>i. if PoseListener i \<in> set hs then pose_of lib obj (meshes s ! i)
                                 else meshes s ! i) [0..<length (meshes s)]\<rparr>)"
  using assms
proof (induction hs arbitrary: s)
  case Nil
  then show ?case by (simp add: map_nth)
next
  case (Cons h hs)
  then obtain r where r: "h = PoseListener r" "r < length (meshes s)" "n_parent (meshes s ! r) = None"
    by auto
  let ?s1 = "upd_mesh r (pose_of lib obj) s"
  have h1: "handle lib h (MatrixDetail obj) s = Some ?s1"
    using r handle_pose by simp
  have pre: "\<forall>h\<in>set hs. \<exists>r. h = PoseListener r \<and> r < length (meshes ?s1) \<and> n_parent (meshes ?s1 ! r) = None"
  proof
    fix h' assume "h' \<in> set hs"
    with Cons.prems obtain r' where r': "h' = PoseListener r'" "r' < length (meshes s)" "n_parent (meshes s ! r') = None"
      by auto
    with r show "\<exists>r. h' = PoseListener r \<and> r < length (meshes ?s1) \<and> n_parent (meshes ?s1 ! r) = None"
      by (auto simp: upd_mesh_def nth_list_update)
  qed
  have "run_listeners lib (h # hs) (MatrixDetail obj) s = run_listeners lib hs (MatrixDetail obj) ?s1"
    using h1 by simp
  also have "\<dots> = Some (?s1\<lparr>meshes := map (\<lambda>i. if PoseListener i \<in> set hs then pose_of lib obj (meshes ?s1 ! i)
                                 else meshes ?s1 ! i) [0..<length (meshes ?s1)]\<rparr>)"
    using Cons.IH [OF pre] .
  also have "\<dots> = Some (s\<lparr>meshes := map (\<lambda>i. if PoseListener i \<in> set (h # hs) then pose_of lib obj (meshes s ! i)
                                 else meshes s ! i) [0..<length (meshes s)]\<rparr>)"
    using r by (auto simp: upd_mesh_def nth_list_update)
  finally show ?case .
qed

lemma run_lost:
  assumes "\<forall>h\<in>set hs. \<exists>r v. h = TrackingLostListener r v"
  shows "run_listeners lib hs d s =
     Some (s\<lparr>meshes := map (\<lambda>i. (meshes s ! i)\<lparr>n_enabled := lost_enabled hs i (n_enabled (meshes s ! i))\<rparr>)
                          [0..<length (meshes s)]\<rparr>)"
  using assms
proof (induction hs arbitrary: s)
  case Nil
  then show ?case by (simp add: map_nth)
next
  case (Cons h hs)
  then obtain r v where r: "h = TrackingLostListener r v" by auto
  have pre: "\<forall>h\<in>set hs. \<exists>r v. h = TrackingLostListener r v" using Cons.prems by simp
  show ?case
    using r Cons.IH [OF pre, of "setEnabled r v s"]
    by (auto simp: setEnabled_def upd_mesh_def nth_list_update)
qed

lemma lost_enabled_unique:
  assumes "\<forall>v'. TrackingLostListener i v' \<in> set hs \<longrightarrow> v' = v"
  shows "lost_enabled hs i b = (if \<exists>v'. TrackingLostListener i v' \<in> set hs then v else b)"
  using assms
proof (induction hs arbitrary: b)
  case Nil
  then show ?case by simp
next
  case (Cons h hs)
  then show ?case by (cases h) auto
qed

lemma handle_frame:
  assumes "handle lib h d s = Some s'"
  shows "listeners s' = listeners s" "length (meshes s') = length (meshes s)"
    "map n_parent (meshes s') = map n_parent (meshes s)"
    "materials s' = materials s" "textures s' = textures s"
    "animationGroups s' = animationGroups s"
  using assms
  by (cases h; cases d;
      auto simp: Let_def applyMatrix_def setEnabled_def setAbsolutePosition_def
        upd_mesh_parents split: option.splits if_splits)+

lemma run_listeners_frame:
  assumes "run_listeners lib hs d s = Some s'"
  shows "listeners s' = listeners s \<and> length (meshes s') = length (meshes s)
    \<and> map n_parent (meshes s') = map n_parent (meshes s)
    \<and> materials s' = materials s \<and> textures s' = textures s
    \<and> animationGroups s' = animationGroups s"
  using assms
proof (induction hs arbitrary: s)
  case Nil
  then show ?case by simp
next
  case (Cons h hs)
  then obtain s1 where s1: "handle lib h d s = Some s1" "run_listeners lib hs d s1 = Some s'"
    by (auto split: option.splits)
  show ?case using Cons.IH [OF s1(2)] handle_frame [OF s1(1)] by simp
qed

lemma data_listener_overwrites:
  assumes "h \<in> {ModelDataListener mesh, VideoDataListener mesh, ImageDataListener mesh}"
    and "handle lib h d1 s = Some s1" "dpi \<noteq> 0"
  shows "handle lib h (NFTDataDetail w ht dpi) s1 = handle lib h (NFTDataDetail w ht dpi) s"
  using assms
  by (cases d1) (auto simp: upd_mesh_twice split: if_splits)

lemma objectToArray_flat:
  "objectToArray (zip [0..<length xs] xs) = map Some xs"
proof (induction xs rule: rev_induct)
  case Nil
  then show ?case by (simp add: objectToArray_def)
next
  case (snoc x xs)
  have "zip [0..<length (xs @ [x])] (xs @ [x]) = zip [0..<length xs] xs @ [(length xs, x)]"
    by simp
  then show ?case using snoc
    by (simp add: objectToArray_def js_array_set_def)
qed

section \<open>The invariant of the built scenes\<close>

text \<open>
  \<open>scene_ok\<close> holds of the scene of the constructor and is kept by every attacher and by
  every event, so it holds of every scene that the renderer builds (\<open>built_scene_ok\<close>). In
  such a scene an event of a marker runs the listeners of its own kind only, which gives
  the scene after a pose update (\<open>dispatch_pose\<close>) and after a tracking-lost event
  (\<open>dispatch_lost\<close>) in closed form.
\<close>

lemma scene_ok_init: "scene_ok SceneRendererBJS"
  by (simp add: scene_ok_def SceneRendererBJS_def pose_targets_def lost_targets_def)

lemma listener_ok_cong:
  assumes "length ms' = length ms" "map n_parent ms' = map n_parent ms"
  shows "listener_ok ms' l = listener_ok ms l"
proof -
  have "\<And>r. r < length ms \<Longrightarrow> n_parent (ms' ! r) = n_parent (ms ! r)"
    using assms by (metis nth_map)
  then show ?thesis
    using assms(1) by (cases l; cases "snd l") (auto simp: listener_ok_def)
qed

lemma scene_ok_cong:
  assumes "listeners s' = listeners s" "length (meshes s') = length (meshes s)"
    "map n_parent (meshes s') = map n_parent (meshes s)"
  shows "scene_ok s' = scene_ok s"
  using assms listener_ok_cong [OF assms(2,3)]
  by (simp add: scene_ok_def pose_targets_def lost_targets_def list_all_iff)

lemma scene_ok_dispatchEvent:
  assumes "scene_ok s" "dispatchEvent lib ev d s = Some s'"
  shows "scene_ok s'"
  using assms run_listeners_frame [of lib "listeners_of ev s" d s s'] scene_ok_cong [of s' s]
  by (simp add: dispatchEvent_def)

lemma scene_ok_listener:
  assumes "scene_ok s" "(ev, h) \<in> set (listeners s)"
  shows "target h < length (meshes s)" "registered_for h ev" "unparented_root (meshes s) h"
  using assms by (auto simp: scene_ok_def list_all_iff listener_ok_def)

lemma pose_listeners_of:
  assumes "scene_ok s" "h \<in> set (listeners_of (poseEvent uuid nm) s)"
  shows "\<exists>r. h = PoseListener r \<and> r < length (meshes s) \<and> n_parent (meshes s ! r) = None"
proof -
  have in_l: "(poseEvent uuid nm, h) \<in> set (listeners s)"
    using assms(2) by (auto simp: listeners_of_def)
  from scene_ok_listener [OF assms(1) in_l] show ?thesis
    by (cases h) auto
qed

lemma lost_listeners_of:
  assumes "scene_ok s" "h \<in> set (listeners_of (lostEvent uuid nm) s)"
  shows "\<exists>r v. h = TrackingLostListener r v"
proof -
  have in_l: "(lostEvent uuid nm, h) \<in> set (listeners s)"
    using assms(2) by (auto simp: listeners_of_def)
  from scene_ok_listener [OF assms(1) in_l] show ?thesis
    by (cases h) auto
qed

lemma dispatch_pose:
  assumes "scene_ok s"
  shows "dispatchEvent lib (poseEvent uuid nm) (MatrixDetail obj) s =
     Some (s\<lparr>meshes := map (\<lambda>i. if i \<in> set (anchors uuid nm s)
                                 then pose_of lib obj (meshes s ! i) else meshes s ! i)
                          [0..<length (meshes s)]\<rparr>)"
proof -
  let ?hs = "listeners_of (poseEvent uuid nm) s"
  have all: "\<forall>h\<in>set ?hs. \<exists>r. h = PoseListener r \<and> r < length (meshes s) \<and> n_parent (meshes s ! r) = None"
    using pose_listeners_of [OF assms] by blast
  have "\<And>i. PoseListener i \<in> set ?hs \<longleftrightarrow> i \<in> set (anchors uuid nm s)"
  proof
    fix i assume "PoseListener i \<in> set ?hs"
    then show "i \<in> set (anchors uuid nm s)" by (force simp: anchors_def)
  next
    fix i assume "i \<in> set (anchors uuid nm s)"
    then obtain h where h: "h \<in> set ?hs" "target h = i" by (auto simp: anchors_def)
    with all show "PoseListener i \<in> set ?hs" by fastforce
  qed
  then show ?thesis unfolding dispatchEvent_def run_pose [OF all] by simp
qed

lemma dispatch_lost:
  assumes "scene_ok s"
  shows "dispatchEvent lib (lostEvent uuid nm) d s =
     Some (s\<lparr>meshes := map (\<lambda>i. (meshes s ! i)\<lparr>n_enabled :=
                 lost_enabled (listeners_of (lostEvent uuid nm) s) i (n_enabled (meshes s ! i))\<rparr>)
                          [0..<length (meshes s)]\<rparr>)"
  unfolding dispatchEvent_def
  using lost_listeners_of [OF assms] by (intro run_lost) blast

lemma pose_targets_valid:
  assumes "scene_ok s" "r \<in> set (pose_targets s)"
  shows "r < length (meshes s)"
  using assms scene_ok_listener(1) by (fastforce simp: pose_targets_def)

lemma lost_targets_valid:
  assumes "scene_ok s" "r \<in> set (lost_targets s)"
  shows "r < length (meshes s)"
  using assms scene_ok_listener(1) by (fastforce simp: lost_targets_def)

lemma anchors_pose_targets:
  assumes "scene_ok s"
  shows "anchors uuid nm s =
     map (target \<circ> snd) (filter (\<lambda>l. fst l = poseEvent uuid nm) (filter (is_pose \<circ> snd) (listeners s)))"
proof -
  have "filter (\<lambda>l. fst l = poseEvent uuid nm) (filter (is_pose \<circ> snd) (listeners s))
      = filter (\<lambda>l. fst l = poseEvent uuid nm) (listeners s)"
    unfolding filter_filter
  proof (rule filter_cong [OF refl])
    fix l assume l: "l \<in> set (listeners s)"
    show "((is_pose \<circ> snd) l \<and> fst l = poseEvent uuid nm) = (fst l = poseEvent uuid nm)"
    proof (cases "fst l = poseEvent uuid nm")
      case True
      then have "(poseEvent uuid nm, snd l) \<in> set (listeners s)" using l by (metis prod.collapse)
      from scene_ok_listener(2) [OF assms this] show ?thesis using True by (cases "snd l") auto
    qed simp
  qed
  then show ?thesis by (simp add: anchors_def listeners_of_def)
qed

lemma anchors_distinct:
  assumes "scene_ok s"
  shows "distinct (anchors uuid nm s)"
proof -
  have "distinct (map (target \<circ> snd) (filter (is_pose \<circ> snd) (listeners s)))"
    using assms by (simp add: scene_ok_def pose_targets_def)
  then show ?thesis unfolding anchors_pose_targets [OF assms] by (rule distinct_map_filter)
qed

lemma anchors_valid:
  assumes "scene_ok s" "r \<in> set (anchors uuid nm s)"
  shows "r < length (meshes s)" "n_parent (meshes s ! r) = None"
proof -
  from assms(2) obtain h where "h \<in> set (listeners_of (poseEvent uuid nm) s)" "target h = r"
    by (auto simp: anchors_def)
  with pose_listeners_of [OF assms(1)] show "r < length (meshes s)" "n_parent (meshes s ! r) = None"
    by fastforce+
qed

lemma anchors_append:
  assumes "listeners s' = listeners s @
       [(dataEvent uuid nm, h), (poseEvent uuid nm, PoseListener r), (lostEvent uuid nm, l)]"
  shows "anchors uuid nm' s' = anchors uuid nm' s @ (if nm' = nm then [r] else [])"
  using assms by (simp add: anchors_def listeners_of_def)

lemma anchors_fresh:
  assumes "scene_ok s" "length (meshes s) \<le> r"
  shows "r \<notin> set (anchors uuid nm s)"
  using anchors_valid(1) [OF assms(1), of r uuid nm] assms(2) by auto

lemma lost_listener_unique:
  assumes ok: "scene_ok s"
    and a: "(ev, TrackingLostListener r v) \<in> set (listeners s)"
    and b: "(ev', TrackingLostListener r v') \<in> set (listeners s)"
  shows "v' = v"
proof -
  let ?ls = "filter (is_lost \<circ> snd) (listeners s)"
  have "distinct (map (target \<circ> snd) ?ls)"
    using ok by (simp add: scene_ok_def lost_targets_def)
  then have "inj_on (target \<circ> snd) (set ?ls)" by (simp add: distinct_map)
  moreover have "(ev, TrackingLostListener r v) \<in> set ?ls" "(ev', TrackingLostListener r v') \<in> set ?ls"
    using a b by simp_all
  moreover have "(target \<circ> snd) (ev, TrackingLostListener r v)
      = (target \<circ> snd) (ev', TrackingLostListener r v')"
    by simp
  ultimately have "(ev, TrackingLostListener r v) = (ev', TrackingLostListener r v')"
    by (meson inj_onD)
  then show ?thesis by simp
qed

lemma dispatch_lost_anchor:
  assumes ok: "scene_ok s"
    and l: "(lostEvent uuid nm, TrackingLostListener r v) \<in> set (listeners s)"
  shows "\<exists>s1. dispatchEvent lib (lostEvent uuid nm) d s = Some s1
     \<and> meshes s1 ! r = (meshes s ! r)\<lparr>n_enabled := v\<rparr>
     \<and> listeners s1 = listeners s \<and> scene_ok s1"
proof -
  let ?hs = "listeners_of (lostEvent uuid nm) s"
  have in_hs: "TrackingLostListener r v \<in> set ?hs"
    using l by (force simp: listeners_of_def)
  have "\<forall>v'. TrackingLostListener r v' \<in> set ?hs \<longrightarrow> v' = v"
    using lost_listener_unique [OF ok l] by (auto simp: listeners_of_def)
  from lost_enabled_unique [OF this] in_hs
  have e: "\<And>b. lost_enabled ?hs r b = v" by auto
  have r: "r < length (meshes s)" using scene_ok_listener(1) [OF ok l] by simp
  note d = dispatch_lost [OF ok, of lib uuid nm d]
  have "scene_ok (the (dispatchEvent lib (lostEvent uuid nm) d s))"
    using scene_ok_dispatchEvent [OF ok] d by simp
  then show ?thesis using d e r by simp
qed

lemma scene_ok_extend:
  assumes ok: "scene_ok s"
    and len: "length (meshes s) \<le> r" "r < length (meshes s')"
    and old: "\<forall>i < length (meshes s). n_parent (meshes s' ! i) = n_parent (meshes s ! i)"
    and new: "listeners s' = listeners s @
       [(ev, h), (poseEvent uuid nm, PoseListener r), (lostEvent uuid nm, TrackingLostListener r v)]"
    and h: "target h < length (meshes s')" "registered_for h ev" "\<not> is_pose h" "\<not> is_lost h"
    and par: "n_parent (meshes s' ! r) = None"
  shows "scene_ok s'"
proof -
  have "list_all (listener_ok (meshes s')) (listeners s)"
    unfolding list_all_iff
  proof
    fix l assume l: "l \<in> set (listeners s)"
    then have "(fst l, snd l) \<in> set (listeners s)" by simp
    from scene_ok_listener [OF ok this] old len
    show "listener_ok (meshes s') l"
      by (cases "snd l") (auto simp: listener_ok_def)
  qed
  moreover have "listener_ok (meshes s') (ev, h)"
    using h by (cases h) (auto simp: listener_ok_def)
  moreover have "listener_ok (meshes s') (poseEvent uuid nm, PoseListener r)"
    "listener_ok (meshes s') (lostEvent uuid nm, TrackingLostListener r v)"
    using len par by (auto simp: listener_ok_def)
  moreover have "pose_targets s' = pose_targets s @ [r]"
    using h(3) new by (simp add: pose_targets_def)
  moreover have "r \<notin> set (pose_targets s)"
    using pose_targets_valid [OF ok] len by fastforce
  moreover have "lost_targets s' = lost_targets s @ [r]"
    using h new by (cases h) (simp_all add: lost_targets_def)
  moreover have "r \<notin> set (lost_targets s)"
    using lost_targets_valid [OF ok] len by fastforce
  ultimately show ?thesis
    using ok new by (simp add: scene_ok_def)
qed

lemma scene_ok_grow:
  assumes ok: "scene_ok s"
    and l: "listeners s' = listeners s"
    and len: "length (meshes s) \<le> length (meshes s')"
    and old: "\<forall>i < length (meshes s). n_parent (meshes s' ! i) = n_parent (meshes s ! i)"
  shows "scene_ok s'"
proof -
  have "list_all (listener_ok (meshes s')) (listeners s)"
    unfolding list_all_iff
  proof
    fix x assume x: "x \<in> set (listeners s)"
    then have "(fst x, snd x) \<in> set (listeners s)" by simp
    from scene_ok_listener [OF ok this] old len
    show "listener_ok (meshes s') x"
      by (cases "snd x") (auto simp: listener_ok_def)
  qed
  then show ?thesis
    using ok l by (simp add: scene_ok_def pose_targets_def lost_targets_def)
qed

lemma scene_ok_addVideo:
  assumes "scene_ok s"
  shows "scene_ok (snd (addVideo e uuid args s))"
  by (rule scene_ok_extend [OF assms, where r = "length (meshes s)"
        and ev = "dataEvent uuid (vargs_name args)" and h = "VideoDataListener (Suc (length (meshes s)))"
        and uuid = uuid and nm = "vargs_name args" and v = "default False (vargs_visibility args)"])
     (simp_all add: addVideo_scene nth_append Mesh_def)

lemma scene_ok_addImage:
  assumes "scene_ok s"
  shows "scene_ok (snd (addImage e uuid args s))"
  by (rule scene_ok_extend [OF assms, where r = "length (meshes s)"
        and ev = "dataEvent uuid (vargs_name args)" and h = "ImageDataListener (Suc (length (meshes s)))"
        and uuid = uuid and nm = "vargs_name args" and v = "default False (vargs_visibility args)"])
     (simp_all add: addImage_scene nth_append Mesh_def)

lemma scene_ok_addModel:
  assumes ok: "scene_ok s"
    and res: "fst (addModel e uuid args s) = Inr model"
    and imp: "\<forall>p. margs_process args = Some p \<longrightarrow> returns_imported p"
  shows "scene_ok (snd (addModel e uuid args s))"
proof (rule addModel_attached [OF res imp], goal_cases)
  case (1 a mesh)
  show ?case
    by (rule scene_ok_extend [OF ok _ _ _ 1(6)]) (use 1 in \<open>simp_all add: Mesh_def\<close>)
qed

lemma scene_ok_import:
  assumes "scene_ok s"
  shows "scene_ok (snd (import_asset a s))" "scene_ok (with_root args (snd (import_asset a s)))"
  by (rule scene_ok_grow [OF assms]; simp add: nth_append with_root_def new_Mesh_def)+

lemma scene_ok_addModel_always:
  assumes ok: "scene_ok s"
    and imp: "\<forall>p. margs_process ma = Some p \<longrightarrow> returns_imported p"
  shows "scene_ok (snd (addModel e uuid ma s))"
proof (cases "fst (addModel e uuid ma s)")
  case (Inr model)
  then show ?thesis by (rule scene_ok_addModel [OF ok _ imp])
next
  case (Inl err)
  let ?s0 = "requested (margs_url ma) s"
  have ok0: "scene_ok ?s0" using ok scene_ok_cong [of ?s0 s] by simp
  show ?thesis
  proof (cases "ImportMeshAsync e (margs_url ma)")
    case (Inl err')
    then show ?thesis using ok0 by (simp add: addModel_rejected)
  next
    case (Inr a)
    show ?thesis
    proof (cases "fst (processed ma a ?s0)")
      case (Inl err')
      then show ?thesis
        using Inr processed_rejected [OF Inl] scene_ok_import(1) [OF ok0]
        by (simp add: addModel_unfold)
    next
      case p: (Inr model)
      show ?thesis
      proof (cases "model_mesh model")
        case None
        have "snd (processed ma a ?s0) = snd (import_asset a ?s0)"
        proof (cases "margs_process ma")
          case None
          let ?d = "fst (import_asset a ?s0)" and ?s1 = "snd (import_asset a ?s0)"
          have pd: "processed ma a ?s0 = processModelData ?d JUndefined ?s1"
            using None by (simp add: processed_def)
          show ?thesis
          proof (cases "find (\<lambda>mesh. n_id (meshes ?s1 ! mesh) = ''__root__'') (d_meshes ?d)")
            case None
            then show ?thesis using pd by (simp add: processModelData_None)
          next
            case (Some m)
            from processModelData_frame [OF Some, of JUndefined] pd p \<open>model_mesh model = None\<close>
            show ?thesis by auto
          qed
        next
          case (Some pr)
          then show ?thesis by (simp add: processed_def)
        qed
        then show ?thesis
          using Inr p None scene_ok_import(2) [OF ok0] by (simp add: addModel_unfold)
      next
        case (Some mesh)
        then show ?thesis using Inl Inr p by (simp add: addModel_unfold)
      qed
    qed
  qed
qed

lemma built_scene_ok:
  assumes "built lib e uuid s"
  shows "scene_ok s"
  using assms
proof (induction rule: built.induct)
  case constructed
  show ?case by (rule scene_ok_init)
next
  case (video s a)
  then show ?case by (simp add: scene_ok_addVideo)
next
  case (image s a)
  then show ?case by (simp add: scene_ok_addImage)
next
  case (model s ma)
  then show ?case by (simp add: scene_ok_addModel_always)
next
  case (event s ev d s')
  then show ?case using scene_ok_dispatchEvent by blast
qed

section \<open>The mathematics of the specification at the identity\<close>

lemma spec_identity_FromArray:
  "spec_FromArray (map Some spec_Identity) = spec_Identity"
  by (simp add: spec_FromArray_def spec_Identity_def upt_rec)

lemma spec_identity_position:
  "spec_TransformCoordinates Vector3_Zero spec_Identity = Vector3_Zero"
  by (simp add: spec_TransformCoordinates_def spec_Identity_def Vector3_Zero_def)

lemma spec_identity_rotation:
  "spec_toEulerAngles (spec_fromRotationMatrix (spec_getRotationMatrix spec_Identity)) = Vector3_Zero"
  by (simp add: spec_toEulerAngles_def spec_fromRotationMatrix_def spec_getRotationMatrix_def
      spec_Identity_def Vector3_Zero_def atan2_def Let_def)

section \<open>The rotations of the specification\<close>




















section \<open>The scene of the README\<close>

lemma readme_video_scene_eq:
  "readme_video_scene =
     \<lparr>meshes = [Mesh ''marker-name Root'',
         (Mesh ''marker-name Plane'')\<lparr>n_plane := Some (960, 540),
            n_material := Some (MaterialRef 0), n_parent := Some 0,
            n_scaling := setAll 1, n_rotation := Vector3_Zero\<lparr>vx := pi\<rparr>\<rparr>],
      materials = [(StandardMaterial ''Video Material - marker-name'')
         \<lparr>m_diffuseColor := Color3_Black, m_emissiveTexture := Some 0\<rparr>],
      textures = [\<lparr>t_ctor = VideoTexture ''Video - marker-name'' (Element 0) False True True,
         t_video = Some (Element 0), t_loadError = None\<rparr>],
      animationGroups = [],
      listeners = [(''getNFTData-uuid-marker-name'', VideoDataListener 1),
         (''getMatrixGL_RH-uuid-marker-name'', PoseListener 0),
         (''nftTrackingLost-uuid-marker-name'', TrackingLostListener 0 False)],
      renderLoop = False, importRequests = []\<rparr>"
  by (simp add: readme_video_scene_def addVideo_scene readme_video_def readme_env_def
      SceneRendererBJS_def default_def dataEvent_def poseEvent_def lostEvent_def)

lemma readme_model_result:
  "fst (addModel readme_env ''uuid'' readme_model readme_video_scene) =
     Inr \<lparr>model_mesh = Some 2, model_animation = Some 0, model_animations = None\<rparr>"
  by (simp add: readme_video_scene_eq addModel_unfold processed_def requested_def readme_env_def
      readme_model_def readme_asset_def processModelData_def import_asset_def Let_def
      imported_mesh_def Mesh_def upt_rec nth_append stop_def upd_animationGroup_def
      upd_mesh_def dispose_def imported_animationGroup_def)

lemma readme_video_scene_ok: "scene_ok readme_video_scene"
  unfolding readme_video_scene_def by (rule scene_ok_addVideo [OF scene_ok_init])

lemma readme_scene_ok: "scene_ok readme_scene"
  unfolding readme_scene_def
  by (rule scene_ok_addModel [OF readme_video_scene_ok readme_model_result])
     (simp add: readme_model_def)

lemma readme_scene_listeners:
  "listeners readme_scene =
     [(''getNFTData-uuid-marker-name'', VideoDataListener 1),
      (''getMatrixGL_RH-uuid-marker-name'', PoseListener 0),
      (''nftTrackingLost-uuid-marker-name'', TrackingLostListener 0 False),
      (''getNFTData-uuid-marker-name'', ModelDataListener 2),
      (''getMatrixGL_RH-uuid-marker-name'', PoseListener 5),
      (''nftTrackingLost-uuid-marker-name'', TrackingLostListener 5 False)]"
proof -
  have imp: "\<forall>p. margs_process readme_model = Some p \<longrightarrow> returns_imported p"
    by (simp add: readme_model_def)
  show ?thesis
  proof (rule addModel_attached [OF readme_model_result imp], goal_cases)
    case (1 a mesh)
    then have "a = readme_asset" "mesh = 2"
      by (simp_all add: readme_env_def readme_model_def)
    with 1(6) show ?case
      by (simp add: readme_scene_def readme_video_scene_eq readme_asset_def readme_model_def
          default_def dataEvent_def poseEvent_def lostEvent_def)
  qed
qed

lemma readme_scene_anchors: "anchors ''uuid'' ''marker-name'' readme_scene = [0, 5]"
  by (simp add: anchors_def listeners_of_def readme_scene_listeners poseEvent_def)

lemma readme_scene_parents:
  "n_parent (meshes readme_scene ! 1) = Some 0" "n_parent (meshes readme_scene ! 2) = Some 5"
  "n_name (meshes readme_scene ! 0) = ''marker-name Root''"
  "n_name (meshes readme_scene ! 5) = ''marker-name Root''"
proof -
  have imp: "\<forall>p. margs_process readme_model = Some p \<longrightarrow> returns_imported p"
    by (simp add: readme_model_def)
  have "n_parent (meshes readme_scene ! 1) = Some 0 \<and> n_parent (meshes readme_scene ! 2) = Some 5
    \<and> n_name (meshes readme_scene ! 0) = ''marker-name Root''
    \<and> n_name (meshes readme_scene ! 5) = ''marker-name Root''"
  proof (rule addModel_attached [OF readme_model_result imp], goal_cases)
    case (1 a mesh)
    then have "a = readme_asset" "mesh = 2"
      by (simp_all add: readme_env_def readme_model_def)
    note 1 = 1
    have len: "length (meshes readme_video_scene) = 2" "length (a_meshes readme_asset) = 3"
      by (simp_all add: readme_video_scene_eq readme_asset_def)
    have old: "meshes readme_scene ! 0 = meshes readme_video_scene ! 0"
      "meshes readme_scene ! 1 = meshes readme_video_scene ! 1"
      using 1(10) len by (simp_all add: readme_scene_def)
    have new: "meshes readme_scene ! 5 = Mesh (margs_name readme_model @ '' Root'')"
      "n_parent (meshes readme_scene ! 2) = Some 5"
      using 1(7,8) len \<open>a = readme_asset\<close> \<open>mesh = 2\<close> by (simp_all add: readme_scene_def)
    show ?case
      using old new by (simp add: readme_video_scene_eq readme_model_def Mesh_def)
  qed
  then show "n_parent (meshes readme_scene ! 1) = Some 0"
    "n_parent (meshes readme_scene ! 2) = Some 5"
    "n_name (meshes readme_scene ! 0) = ''marker-name Root''"
    "n_name (meshes readme_scene ! 5) = ''marker-name Root''"
    by simp_all
qed

section \<open>One anchor for each attachment (C1)\<close>

text \<open>
  Claim C1, as the specification states it, fails on the calls of the README: after a
  video and a model were attached to the marker \<open>marker-name\<close>, the marker has two
  anchors, the meshes 0 and 5, both named \<open>marker-name Root\<close>; the video's plane is the
  child of the one and the model's mesh the child of the other.
\<close>

theorem two_attachments_two_anchors:
  "anchors ''uuid'' ''marker-name'' readme_scene = [0, 5]
   \<and> n_name (meshes readme_scene ! 0) = ''marker-name Root''
   \<and> n_name (meshes readme_scene ! 5) = ''marker-name Root''
   \<and> n_parent (meshes readme_scene ! 1) = Some 0
   \<and> n_parent (meshes readme_scene ! 2) = Some 5"
  using readme_scene_anchors readme_scene_parents by simp

text \<open>
  Claim C1, amended. In a scene that the renderer built, every call of \<open>addVideo\<close> and
  \<open>addImage\<close>, and every call of \<open>addModel\<close> that resolves (with the default processing,
  or a processing function that returns a mesh of the import), creates an anchor of its
  own: a new mesh named \<open>name + ' Root'\<close>, which becomes the last anchor of the marker
  \<open>name\<close> and the parent of the content of the call; the anchors of the other markers stay
  as they are, and the scene is again one the renderer built. So the anchors of a marker
  are distinct meshes, one for each attachment, and a pose update of the marker enables
  every one of them and sets its rotation and position from the matrix.
\<close>

theorem one_anchor_per_attachment:
  assumes "scene_ok s"
  shows "(anchors uuid nm (snd (addVideo e uuid a s)) =
            anchors uuid nm s @ (if nm = vargs_name a then [length (meshes s)] else [])
          \<and> length (meshes s) \<notin> set (anchors uuid nm s)
          \<and> n_name (meshes (snd (addVideo e uuid a s)) ! length (meshes s)) = vargs_name a @ '' Root''
          \<and> n_parent (meshes (snd (addVideo e uuid a s)) ! Suc (length (meshes s))) =
              Some (length (meshes s))
          \<and> scene_ok (snd (addVideo e uuid a s)))
   \<and> (anchors uuid nm (snd (addImage e uuid a s)) =
            anchors uuid nm s @ (if nm = vargs_name a then [length (meshes s)] else [])
          \<and> n_name (meshes (snd (addImage e uuid a s)) ! length (meshes s)) = vargs_name a @ '' Root''
          \<and> n_parent (meshes (snd (addImage e uuid a s)) ! Suc (length (meshes s))) =
              Some (length (meshes s))
          \<and> scene_ok (snd (addImage e uuid a s)))
   \<and> (fst (addModel e uuid ma s) = Inr model
        \<and> (\<forall>p. margs_process ma = Some p \<longrightarrow> returns_imported p) \<longrightarrow>
        (\<exists>r mesh. anchors uuid nm (snd (addModel e uuid ma s)) =
              anchors uuid nm s @ (if nm = margs_name ma then [r] else [])
          \<and> length (meshes s) \<le> r \<and> r \<notin> set (anchors uuid nm s)
          \<and> n_name (meshes (snd (addModel e uuid ma s)) ! r) = margs_name ma @ '' Root''
          \<and> model_mesh model = Some mesh
          \<and> n_parent (meshes (snd (addModel e uuid ma s)) ! mesh) = Some r
          \<and> scene_ok (snd (addModel e uuid ma s))))
   \<and> distinct (anchors uuid nm s)
   \<and> (\<exists>s'. dispatchEvent lib (poseEvent uuid nm) (MatrixDetail obj) s = Some s'
        \<and> (\<forall>r \<in> set (anchors uuid nm s).
              n_enabled (meshes s' ! r)
            \<and> n_rotation (meshes s' ! r) =
                toEulerAngles lib (fromRotationMatrix lib (getRotationMatrix lib
                  (objectToMatrix lib obj)))
            \<and> n_position (meshes s' ! r) =
                TransformCoordinates lib Vector3_Zero (objectToMatrix lib obj)))"
proof (intro conjI, goal_cases)
  case 1
  show ?case
    by (rule anchors_append [where h = "VideoDataListener (Suc (length (meshes s)))"
          and l = "TrackingLostListener (length (meshes s)) (default False (vargs_visibility a))"])
       (simp add: addVideo_scene)
next
  case 2
  show ?case using anchors_fresh [OF assms] by simp
next
  case 3
  show ?case by (simp add: addVideo_scene nth_append Mesh_def)
next
  case 4
  show ?case by (simp add: addVideo_scene nth_append Mesh_def)
next
  case 5
  show ?case by (rule scene_ok_addVideo [OF assms])
next
  case 6
  show ?case
    by (rule anchors_append [where h = "ImageDataListener (Suc (length (meshes s)))"
          and l = "TrackingLostListener (length (meshes s)) (default False (vargs_visibility a))"])
       (simp add: addImage_scene)
next
  case 7
  show ?case by (simp add: addImage_scene nth_append Mesh_def)
next
  case 8
  show ?case by (simp add: addImage_scene nth_append Mesh_def)
next
  case 9
  show ?case by (rule scene_ok_addImage [OF assms])
next
  case 10
  show ?case
  proof
    assume h: "fst (addModel e uuid ma s) = Inr model
        \<and> (\<forall>p. margs_process ma = Some p \<longrightarrow> returns_imported p)"
    then have res: "fst (addModel e uuid ma s) = Inr model"
      and imp: "\<forall>p. margs_process ma = Some p \<longrightarrow> returns_imported p"
      by simp_all
    show "\<exists>r mesh. anchors uuid nm (snd (addModel e uuid ma s)) =
              anchors uuid nm s @ (if nm = margs_name ma then [r] else [])
          \<and> length (meshes s) \<le> r \<and> r \<notin> set (anchors uuid nm s)
          \<and> n_name (meshes (snd (addModel e uuid ma s)) ! r) = margs_name ma @ '' Root''
          \<and> model_mesh model = Some mesh
          \<and> n_parent (meshes (snd (addModel e uuid ma s)) ! mesh) = Some r
          \<and> scene_ok (snd (addModel e uuid ma s))"
    proof (rule addModel_attached [OF res imp], goal_cases)
      case (1 a' mesh)
      let ?r = "length (meshes s) + length (a_meshes a')"
      have "anchors uuid nm (snd (addModel e uuid ma s)) =
              anchors uuid nm s @ (if nm = margs_name ma then [?r] else [])"
        by (rule anchors_append [OF 1(6)])
      moreover have "?r \<notin> set (anchors uuid nm s)"
        using anchors_fresh [OF assms, of ?r] by simp
      ultimately show ?case
        using 1 scene_ok_addModel [OF assms res imp] by (auto simp: Mesh_def)
    qed
  qed
next
  case 11
  show ?case by (rule anchors_distinct [OF assms])
next
  case 12
  show ?case
    using dispatch_pose [OF assms, of lib uuid nm obj] anchors_valid(1) [OF assms, of _ uuid nm]
    by (simp add: pose_of_def)
qed

theorem one_anchor_per_attachment_witness:
  "scene_ok readme_video_scene
   \<and> anchors ''uuid'' ''marker-name'' readme_video_scene = [0]
   \<and> fst (addModel readme_env ''uuid'' readme_model readme_video_scene) =
       Inr \<lparr>model_mesh = Some 2, model_animation = Some 0, model_animations = None\<rparr>
   \<and> margs_process readme_model = None
   \<and> anchors ''uuid'' ''marker-name'' readme_scene = [0, 5]
   \<and> scene_ok readme_scene"
proof -
  have a: "anchors ''uuid'' ''marker-name'' readme_video_scene = [0]"
    by (simp add: anchors_def listeners_of_def readme_video_scene_eq poseEvent_def)
  have p: "margs_process readme_model = None" by (simp add: readme_model_def)
  from one_anchor_per_attachment [OF readme_video_scene_ok, where e = readme_env
      and uuid = "''uuid''" and ma = readme_model and nm = "''marker-name''"
      and model = "\<lparr>model_mesh = Some 2, model_animation = Some 0, model_animations = None\<rparr>",
      THEN conjunct2, THEN conjunct2, THEN conjunct1]
  have "scene_ok readme_scene"
    using readme_model_result p by (auto simp: readme_scene_def)
  then show ?thesis
    using a p readme_model_result readme_video_scene_ok readme_scene_anchors by simp
qed

section \<open>The pose listener (C2)\<close>

text \<open>
  Claim C2. A pose-update event with a flat payload of 16 numbers makes the pose
  listener set the position of the anchor to what the engine's \<open>TransformCoordinates\<close>
  gives for the origin and the matrix of the whole payload, the rotation to the Euler
  angles of the quaternion of its rotation matrix, and the anchor enabled: for the
  listener called on an anchor without parent, and for every anchor of the marker when
  the event is dispatched in a scene that the renderer built.
\<close>

theorem pose_update_transforms_origin:
  assumes "length payload = 16"
  shows "(rootM < length (meshes s) \<and> n_parent (meshes s ! rootM) = None \<longrightarrow>
      (\<exists>s'. handle lib (PoseListener rootM) (MatrixDetail (zip [0..<16] payload)) s = Some s'
         \<and> n_position (meshes s' ! rootM) =
             TransformCoordinates lib Vector3_Zero (FromArray lib (map Some payload))
         \<and> n_rotation (meshes s' ! rootM) =
             toEulerAngles lib (fromRotationMatrix lib (getRotationMatrix lib
               (FromArray lib (map Some payload))))
         \<and> n_enabled (meshes s' ! rootM)))
   \<and> (scene_ok s \<and> rootM \<in> set (anchors uuid nm s) \<longrightarrow>
      (\<exists>s'. dispatchEvent lib (poseEvent uuid nm) (MatrixDetail (zip [0..<16] payload)) s = Some s'
         \<and> n_position (meshes s' ! rootM) =
             TransformCoordinates lib Vector3_Zero (FromArray lib (map Some payload))
         \<and> n_rotation (meshes s' ! rootM) =
             toEulerAngles lib (fromRotationMatrix lib (getRotationMatrix lib
               (FromArray lib (map Some payload))))
         \<and> n_enabled (meshes s' ! rootM)))"
proof -
  have m: "objectToMatrix lib (zip [0..<16] payload) = FromArray lib (map Some payload)"
    using objectToArray_flat [of payload] assms by (simp add: objectToMatrix_def)
  show ?thesis
  proof (intro conjI impI, goal_cases)
    case 1
    then show ?case
      using handle_pose [of rootM s lib "zip [0..<16] payload"] m
      by (simp add: upd_mesh_nth pose_of_def)
  next
    case 2
    then have "rootM < length (meshes s)" using anchors_valid(1) by blast
    with 2 show ?case
      using dispatch_pose [of s lib uuid nm "zip [0..<16] payload"] m
      by (simp add: pose_of_def)
  qed
qed

theorem pose_update_transforms_origin_witness:
  "length spec_Identity = 16 \<and> scene_ok readme_scene
   \<and> 5 \<in> set (anchors ''uuid'' ''marker-name'' readme_scene)
   \<and> n_position (meshes (the (dispatchEvent spec_math ''getMatrixGL_RH-uuid-marker-name''
        (MatrixDetail (zip [0..<16] spec_Identity)) readme_scene)) ! 5) = Vector3_Zero
   \<and> n_rotation (meshes (the (dispatchEvent spec_math ''getMatrixGL_RH-uuid-marker-name''
        (MatrixDetail (zip [0..<16] spec_Identity)) readme_scene)) ! 5) = Vector3_Zero
   \<and> n_enabled (meshes (the (dispatchEvent spec_math ''getMatrixGL_RH-uuid-marker-name''
        (MatrixDetail (zip [0..<16] spec_Identity)) readme_scene)) ! 5)
   \<and> n_position (meshes (the (dispatchEvent spec_math ''getMatrixGL_RH-uuid-marker-name''
        (MatrixDetail (zip [0..<16] [1, 0, 0, 0, 0, 1, 0, 0, 0, 0, 1, 0, 2, 4, 6, 2])) readme_scene)) ! 5)
       = \<lparr>vx = 1, vy = 2, vz = 3\<rparr>"
proof -
  have l: "length spec_Identity = 16" by (simp add: spec_Identity_def)
  have l2: "length [1, 0, 0, 0, 0, 1, 0, 0, 0, 0, 1, 0, 2, 4, 6, 2 :: real] = 16" by simp
  have a: "5 \<in> set (anchors ''uuid'' ''marker-name'' readme_scene)"
    by (simp add: readme_scene_anchors)
  have ev: "poseEvent ''uuid'' ''marker-name'' = ''getMatrixGL_RH-uuid-marker-name''"
    by (simp add: poseEvent_def)
  note t1 = pose_update_transforms_origin [OF l, where lib = spec_math and s = readme_scene
      and rootM = 5 and uuid = "''uuid''" and nm = "''marker-name''", THEN conjunct2, THEN mp,
      OF conjI [OF readme_scene_ok a], unfolded ev]
  note t2 = pose_update_transforms_origin [OF l2, where lib = spec_math and s = readme_scene
      and rootM = 5 and uuid = "''uuid''" and nm = "''marker-name''", THEN conjunct2, THEN mp,
      OF conjI [OF readme_scene_ok a], unfolded ev]
  have p2: "spec_TransformCoordinates Vector3_Zero
      (spec_FromArray (map Some [1, 0, 0, 0, 0, 1, 0, 0, 0, 0, 1, 0, 2, 4, 6, 2])) = \<lparr>vx = 1, vy = 2, vz = 3\<rparr>"
    by (simp add: spec_TransformCoordinates_def spec_FromArray_def Vector3_Zero_def upt_rec)
  from t1 t2 show ?thesis
    using l a readme_scene_ok p2
    by (auto simp: spec_math_def spec_identity_FromArray spec_identity_position
        spec_identity_rotation)
qed

section \<open>Tracking lost (C3)\<close>

lemma lost_then_pose:
  assumes ok: "scene_ok s"
    and p: "(poseEvent uuid nm, PoseListener r) \<in> set (listeners s)"
    and l: "(lostEvent uuid nm, TrackingLostListener r v) \<in> set (listeners s)"
  shows "\<exists>s1 s2. dispatchEvent lib (lostEvent uuid nm) d s = Some s1
       \<and> meshes s1 ! r = (meshes s ! r)\<lparr>n_enabled := v\<rparr>
       \<and> n_enabled (meshes s1 ! r) = v
       \<and> n_rotation (meshes s1 ! r) = n_rotation (meshes s ! r)
       \<and> n_position (meshes s1 ! r) = n_position (meshes s ! r)
       \<and> dispatchEvent lib (poseEvent uuid nm) (MatrixDetail obj) s1 = Some s2
       \<and> n_enabled (meshes s2 ! r)
       \<and> n_rotation (meshes s2 ! r) =
           toEulerAngles lib (fromRotationMatrix lib (getRotationMatrix lib
             (objectToMatrix lib obj)))
       \<and> n_position (meshes s2 ! r) =
           TransformCoordinates lib Vector3_Zero (objectToMatrix lib obj)"
proof -
  from dispatch_lost_anchor [OF ok l, of lib d] obtain s1 where
    s1: "dispatchEvent lib (lostEvent uuid nm) d s = Some s1"
      "meshes s1 ! r = (meshes s ! r)\<lparr>n_enabled := v\<rparr>"
      "listeners s1 = listeners s" "scene_ok s1"
    by blast
  have a: "r \<in> set (anchors uuid nm s1)"
    using p s1(3) by (force simp: anchors_def listeners_of_def)
  then have v: "r < length (meshes s1)" using anchors_valid(1) [OF s1(4)] by blast
  show ?thesis
    using s1 a v dispatch_pose [OF s1(4), of lib uuid nm obj]
    by (simp add: pose_of_def)
qed

text \<open>
  Claim C3. In a scene that the renderer built, for an anchor that \<open>_addRoot\<close> registered
  for a marker with a visibility: a tracking-lost event of the marker leaves the anchor
  as it was but for its \<open>enabled\<close> flag, which becomes the visibility (disabled for
  \<open>false\<close>, enabled for \<open>true\<close>), so its rotation and position are unchanged; a pose
  update of the marker after that enables the anchor and sets its rotation and position
  from the matrix. Every attacher registers its new root with the visibility that the
  call passes, and with \<open>false\<close> when the call passes none; so after a call with
  \<open>visibility: false\<close> (or without) the tracking-lost event disables the new anchor, after
  a call with \<open>visibility: true\<close> it leaves the anchor enabled, and in both cases the
  next pose update enables it.
\<close>

theorem tracking_lost_keeps_pose:
  assumes "scene_ok s"
  shows "((poseEvent uuid nm, PoseListener rootM) \<in> set (listeners s)
       \<and> (lostEvent uuid nm, TrackingLostListener rootM visibility) \<in> set (listeners s) \<longrightarrow>
      (\<exists>s1 s2. dispatchEvent lib (lostEvent uuid nm) d s = Some s1
       \<and> meshes s1 ! rootM = (meshes s ! rootM)\<lparr>n_enabled := visibility\<rparr>
       \<and> n_enabled (meshes s1 ! rootM) = visibility
       \<and> n_rotation (meshes s1 ! rootM) = n_rotation (meshes s ! rootM)
       \<and> n_position (meshes s1 ! rootM) = n_position (meshes s ! rootM)
       \<and> dispatchEvent lib (poseEvent uuid nm) (MatrixDetail obj) s1 = Some s2
       \<and> n_enabled (meshes s2 ! rootM)
       \<and> n_rotation (meshes s2 ! rootM) =
           toEulerAngles lib (fromRotationMatrix lib (getRotationMatrix lib
             (objectToMatrix lib obj)))
       \<and> n_position (meshes s2 ! rootM) =
           TransformCoordinates lib Vector3_Zero (objectToMatrix lib obj)))
   \<and> (poseEvent uuid (vargs_name a), PoseListener (length (meshes s)))
        \<in> set (listeners (snd (addVideo e uuid a s)))
   \<and> (lostEvent uuid (vargs_name a), TrackingLostListener (length (meshes s))
          (case vargs_visibility a of None \<Rightarrow> False | Some v \<Rightarrow> v))
        \<in> set (listeners (snd (addVideo e uuid a s)))
   \<and> (\<exists>s1 s2. dispatchEvent lib (lostEvent uuid (vargs_name a)) d (snd (addVideo e uuid a s))
          = Some s1
       \<and> n_enabled (meshes s1 ! length (meshes s)) =
           (case vargs_visibility a of None \<Rightarrow> False | Some v \<Rightarrow> v)
       \<and> n_rotation (meshes s1 ! length (meshes s)) =
           n_rotation (meshes (snd (addVideo e uuid a s)) ! length (meshes s))
       \<and> n_position (meshes s1 ! length (meshes s)) =
           n_position (meshes (snd (addVideo e uuid a s)) ! length (meshes s))
       \<and> dispatchEvent lib (poseEvent uuid (vargs_name a)) (MatrixDetail obj) s1 = Some s2
       \<and> n_enabled (meshes s2 ! length (meshes s)))
   \<and> (poseEvent uuid (vargs_name a), PoseListener (length (meshes s)))
        \<in> set (listeners (snd (addImage e uuid a s)))
   \<and> (lostEvent uuid (vargs_name a), TrackingLostListener (length (meshes s))
          (case vargs_visibility a of None \<Rightarrow> False | Some v \<Rightarrow> v))
        \<in> set (listeners (snd (addImage e uuid a s)))
   \<and> (\<exists>s1 s2. dispatchEvent lib (lostEvent uuid (vargs_name a)) d (snd (addImage e uuid a s))
          = Some s1
       \<and> n_enabled (meshes s1 ! length (meshes s)) =
           (case vargs_visibility a of None \<Rightarrow> False | Some v \<Rightarrow> v)
       \<and> n_rotation (meshes s1 ! length (meshes s)) =
           n_rotation (meshes (snd (addImage e uuid a s)) ! length (meshes s))
       \<and> n_position (meshes s1 ! length (meshes s)) =
           n_position (meshes (snd (addImage e uuid a s)) ! length (meshes s))
       \<and> dispatchEvent lib (poseEvent uuid (vargs_name a)) (MatrixDetail obj) s1 = Some s2
       \<and> n_enabled (meshes s2 ! length (meshes s)))
   \<and> (fst (addModel e uuid ma s) = Inr model
        \<and> (\<forall>p. margs_process ma = Some p \<longrightarrow> returns_imported p) \<longrightarrow>
        (\<exists>r s1 s2. length (meshes s) \<le> r
         \<and> (poseEvent uuid (margs_name ma), PoseListener r)
             \<in> set (listeners (snd (addModel e uuid ma s)))
         \<and> (lostEvent uuid (margs_name ma), TrackingLostListener r
               (case margs_visibility ma of None \<Rightarrow> False | Some v \<Rightarrow> v))
             \<in> set (listeners (snd (addModel e uuid ma s)))
         \<and> dispatchEvent lib (lostEvent uuid (margs_name ma)) d (snd (addModel e uuid ma s))
             = Some s1
         \<and> n_enabled (meshes s1 ! r) =
             (case margs_visibility ma of None \<Rightarrow> False | Some v \<Rightarrow> v)
         \<and> n_rotation (meshes s1 ! r) = n_rotation (meshes (snd (addModel e uuid ma s)) ! r)
         \<and> n_position (meshes s1 ! r) = n_position (meshes (snd (addModel e uuid ma s)) ! r)
         \<and> dispatchEvent lib (poseEvent uuid (margs_name ma)) (MatrixDetail obj) s1 = Some s2
         \<and> n_enabled (meshes s2 ! r)))"
proof -
  have vis: "\<And>x. default False x = (case x of None \<Rightarrow> False | Some v \<Rightarrow> v)"
    by (simp add: default_def)
  have pv: "(poseEvent uuid (vargs_name a), PoseListener (length (meshes s)))
        \<in> set (listeners (snd (addVideo e uuid a s)))"
    and lv: "(lostEvent uuid (vargs_name a), TrackingLostListener (length (meshes s))
          (case vargs_visibility a of None \<Rightarrow> False | Some v \<Rightarrow> v))
        \<in> set (listeners (snd (addVideo e uuid a s)))"
    by (simp_all add: addVideo_scene vis)
  have pi: "(poseEvent uuid (vargs_name a), PoseListener (length (meshes s)))
        \<in> set (listeners (snd (addImage e uuid a s)))"
    and li: "(lostEvent uuid (vargs_name a), TrackingLostListener (length (meshes s))
          (case vargs_visibility a of None \<Rightarrow> False | Some v \<Rightarrow> v))
        \<in> set (listeners (snd (addImage e uuid a s)))"
    by (simp_all add: addImage_scene vis)
  show ?thesis
  proof (intro conjI impI, goal_cases)
    case 1
    then show ?case using lost_then_pose [OF assms, of uuid nm rootM visibility lib d obj] by blast
  next
    case 2
    show ?case by (rule pv)
  next
    case 3
    show ?case by (rule lv)
  next
    case 4
    from lost_then_pose [OF scene_ok_addVideo [OF assms] pv lv, of lib d obj]
    show ?case by blast
  next
    case 5
    show ?case by (rule pi)
  next
    case 6
    show ?case by (rule li)
  next
    case 7
    from lost_then_pose [OF scene_ok_addImage [OF assms] pi li, of lib d obj]
    show ?case by blast
  next
    case 8
    then have res: "fst (addModel e uuid ma s) = Inr model"
      and imp: "\<forall>p. margs_process ma = Some p \<longrightarrow> returns_imported p"
      by simp_all
    note ok' = scene_ok_addModel [OF assms res imp]
    show ?case
    proof (rule addModel_attached [OF res imp], goal_cases)
      case (1 a' mesh)
      let ?r = "length (meshes s) + length (a_meshes a')"
      have pm: "(poseEvent uuid (margs_name ma), PoseListener ?r)
             \<in> set (listeners (snd (addModel e uuid ma s)))"
        and lm: "(lostEvent uuid (margs_name ma), TrackingLostListener ?r
               (case margs_visibility ma of None \<Rightarrow> False | Some v \<Rightarrow> v))
             \<in> set (listeners (snd (addModel e uuid ma s)))"
        using 1(6) by (simp_all add: vis)
      from lost_then_pose [OF ok' pm lm, of lib d obj] pm lm
      show ?case by (intro exI [of _ ?r]) auto
    qed
  qed
qed

theorem tracking_lost_keeps_pose_witness:
  "scene_ok SceneRendererBJS
   \<and> vargs_visibility (readme_video\<lparr>vargs_visibility := Some True\<rparr>) = Some True
   \<and> n_enabled (meshes (the (dispatchEvent spec_math ''nftTrackingLost-uuid-marker-name'' NoDetail
        (snd (addVideo readme_env ''uuid'' (readme_video\<lparr>vargs_visibility := Some True\<rparr>)
           SceneRendererBJS)))) ! 0)
   \<and> vargs_visibility (readme_video\<lparr>vargs_visibility := Some False\<rparr>) = Some False
   \<and> \<not> n_enabled (meshes (the (dispatchEvent spec_math ''nftTrackingLost-uuid-marker-name'' NoDetail
        (snd (addImage readme_env ''uuid'' (readme_video\<lparr>vargs_visibility := Some False\<rparr>)
           SceneRendererBJS)))) ! 0)
   \<and> scene_ok readme_scene
   \<and> (''getMatrixGL_RH-uuid-marker-name'', PoseListener 5) \<in> set (listeners readme_scene)
   \<and> (''nftTrackingLost-uuid-marker-name'', TrackingLostListener 5 False)
        \<in> set (listeners readme_scene)
   \<and> meshes (the (dispatchEvent spec_math ''nftTrackingLost-uuid-marker-name'' NoDetail
        readme_scene)) ! 5 = (meshes readme_scene ! 5)\<lparr>n_enabled := False\<rparr>
   \<and> n_enabled (meshes (the (dispatchEvent spec_math ''getMatrixGL_RH-uuid-marker-name''
        (MatrixDetail (zip [0..<16] spec_Identity))
        (the (dispatchEvent spec_math ''nftTrackingLost-uuid-marker-name'' NoDetail
           readme_scene)))) ! 5)"
proof -
  have ev: "poseEvent ''uuid'' ''marker-name'' = ''getMatrixGL_RH-uuid-marker-name''"
    "lostEvent ''uuid'' ''marker-name'' = ''nftTrackingLost-uuid-marker-name''"
    by (simp_all add: poseEvent_def lostEvent_def)
  have nm: "vargs_name (readme_video\<lparr>vargs_visibility := Some True\<rparr>) = ''marker-name''"
    "vargs_name (readme_video\<lparr>vargs_visibility := Some False\<rparr>) = ''marker-name''"
    by (simp_all add: readme_video_def)
  have len: "length (meshes SceneRendererBJS) = 0" by (simp add: SceneRendererBJS_def)
  have p: "(poseEvent ''uuid'' ''marker-name'', PoseListener 5) \<in> set (listeners readme_scene)"
    and l: "(lostEvent ''uuid'' ''marker-name'', TrackingLostListener 5 False)
        \<in> set (listeners readme_scene)"
    by (simp_all add: readme_scene_listeners ev)
  note t = tracking_lost_keeps_pose [OF scene_ok_init, where lib = spec_math and d = NoDetail
      and uuid = "''uuid''" and e = readme_env and obj = "[]"]
  note tv = t [where a = "readme_video\<lparr>vargs_visibility := Some True\<rparr>",
      THEN conjunct2, THEN conjunct2, THEN conjunct2, THEN conjunct1, unfolded nm ev len]
  note ti = t [where a = "readme_video\<lparr>vargs_visibility := Some False\<rparr>",
      THEN conjunct2, THEN conjunct2, THEN conjunct2, THEN conjunct2, THEN conjunct2,
      THEN conjunct2, THEN conjunct1, unfolded nm ev len]
  note tr = tracking_lost_keeps_pose [OF readme_scene_ok, where lib = spec_math and d = NoDetail
      and obj = "zip [0..<16] spec_Identity" and uuid = "''uuid''" and nm = "''marker-name''"
      and rootM = 5 and visibility = False, THEN conjunct1, THEN mp, OF conjI [OF p l],
      unfolded ev]
  from tv have a: "n_enabled (meshes (the (dispatchEvent spec_math
        ''nftTrackingLost-uuid-marker-name'' NoDetail
        (snd (addVideo readme_env ''uuid'' (readme_video\<lparr>vargs_visibility := Some True\<rparr>)
           SceneRendererBJS)))) ! 0)"
    by auto
  from ti have b: "\<not> n_enabled (meshes (the (dispatchEvent spec_math
        ''nftTrackingLost-uuid-marker-name'' NoDetail
        (snd (addImage readme_env ''uuid'' (readme_video\<lparr>vargs_visibility := Some False\<rparr>)
           SceneRendererBJS)))) ! 0)"
    by auto
  from tr have c: "meshes (the (dispatchEvent spec_math ''nftTrackingLost-uuid-marker-name'' NoDetail
        readme_scene)) ! 5 = (meshes readme_scene ! 5)\<lparr>n_enabled := False\<rparr>
   \<and> n_enabled (meshes (the (dispatchEvent spec_math ''getMatrixGL_RH-uuid-marker-name''
        (MatrixDetail (zip [0..<16] spec_Identity))
        (the (dispatchEvent spec_math ''nftTrackingLost-uuid-marker-name'' NoDetail
           readme_scene)))) ! 5)"
    by auto
  show ?thesis
    using a b c scene_ok_init readme_scene_ok p l by (simp add: ev)
qed

section \<open>The marker-dimensions listeners (C4)\<close>

text \<open>
  Claim C4. For a marker-dimensions event with \<open>width\<close>, \<open>height\<close> and a non-zero \<open>dpi\<close>,
  the listener of the model attacher and the listener of the video attacher set \<open>y\<close> of
  the content's position to \<open>((height / dpi) * 2.54 * 10) / 2\<close> and \<open>x\<close> to
  \<open>((width / dpi) * 2.54 * 10) / 2\<close>; the listener of the image attacher computes \<open>x\<close>
  from \<open>height\<close> as well. An event after another overwrites the offset: the scene is the
  one the later event alone gives. Each attacher registers its listener, on its content
  mesh, under the marker's \<open>getNFTData\<close> event.
\<close>

theorem marker_dimensions_offset:
  assumes "dpi \<noteq> 0" and "mesh < length (meshes s)"
  shows "(\<exists>s'. handle lib (ModelDataListener mesh) (NFTDataDetail w h dpi) s = Some s'
           \<and> vy (n_position (meshes s' ! mesh)) = ((h / dpi) * 2.54 * 10) / 2
           \<and> vx (n_position (meshes s' ! mesh)) = ((w / dpi) * 2.54 * 10) / 2
           \<and> vz (n_position (meshes s' ! mesh)) = vz (n_position (meshes s ! mesh)))
    \<and> (\<exists>s'. handle lib (VideoDataListener mesh) (NFTDataDetail w h dpi) s = Some s'
           \<and> vy (n_position (meshes s' ! mesh)) = ((h / dpi) * 2.54 * 10) / 2
           \<and> vx (n_position (meshes s' ! mesh)) = ((w / dpi) * 2.54 * 10) / 2
           \<and> vz (n_position (meshes s' ! mesh)) = vz (n_position (meshes s ! mesh)))
    \<and> (\<exists>s'. handle lib (ImageDataListener mesh) (NFTDataDetail w h dpi) s = Some s'
           \<and> vy (n_position (meshes s' ! mesh)) = ((h / dpi) * 2.54 * 10) / 2
           \<and> vx (n_position (meshes s' ! mesh)) = ((h / dpi) * 2.54 * 10) / 2
           \<and> vz (n_position (meshes s' ! mesh)) = vz (n_position (meshes s ! mesh)))
    \<and> (\<forall>l \<in> {ModelDataListener mesh, VideoDataListener mesh, ImageDataListener mesh}.
           \<forall>d1 s1. handle lib l d1 s = Some s1 \<longrightarrow>
             handle lib l (NFTDataDetail w h dpi) s1 = handle lib l (NFTDataDetail w h dpi) s)
    \<and> (dataEvent uuid (vargs_name a), VideoDataListener (Suc (length (meshes s))))
           \<in> set (listeners (snd (addVideo e uuid a s)))
    \<and> (dataEvent uuid (vargs_name a), ImageDataListener (Suc (length (meshes s))))
           \<in> set (listeners (snd (addImage e uuid a s)))
    \<and> (fst (addModel e uuid ma s) = Inr model \<longrightarrow>
           (\<exists>m. model_mesh model = Some m \<and> (dataEvent uuid (margs_name ma), ModelDataListener m)
                  \<in> set (listeners (snd (addModel e uuid ma s)))))"
proof (intro conjI, goal_cases)
  case 1
  show ?case using assms by (simp add: upd_mesh_def offset_def)
next
  case 2
  show ?case using assms by (simp add: upd_mesh_def offset_def)
next
  case 3
  show ?case using assms by (simp add: upd_mesh_def offset_def)
next
  case 4
  show ?case using data_listener_overwrites [OF _ _ assms(1)] by blast
next
  case 5
  show ?case by (simp add: addVideo_scene)
next
  case 6
  show ?case by (simp add: addImage_scene)
next
  case 7
  show ?case
  proof
    assume "fst (addModel e uuid ma s) = Inr model"
    from addModel_resolved [OF this] obtain a' m where
      "model_mesh model = Some m"
      "snd (addModel e uuid ma s) =
         attach_model uuid ma m (snd (processed ma a' (requested (margs_url ma) s)))"
      by blast
    then show "\<exists>m. model_mesh model = Some m \<and> (dataEvent uuid (margs_name ma), ModelDataListener m)
                  \<in> set (listeners (snd (addModel e uuid ma s)))"
      by (simp add: attach_model_frame)
  qed
qed

theorem marker_dimensions_offset_witness:
  "(300 :: real) \<noteq> 0 \<and> 1 < length (meshes readme_video_scene)
   \<and> handle spec_math (VideoDataListener 1) (NFTDataDetail 800 600 300) readme_video_scene \<noteq> None
   \<and> vy (n_position (meshes (the (handle spec_math (VideoDataListener 1)
          (NFTDataDetail 800 600 300) readme_video_scene)) ! 1)) = 25.4
   \<and> \<bar>vx (n_position (meshes (the (handle spec_math (VideoDataListener 1)
          (NFTDataDetail 800 600 300) readme_video_scene)) ! 1)) - 33.87\<bar> < 0.005
   \<and> vx (n_position (meshes (the (handle spec_math (ImageDataListener 1)
          (NFTDataDetail 800 600 300) readme_video_scene)) ! 1)) = 25.4"
proof -
  have h: "(300 :: real) \<noteq> 0" "1 < length (meshes readme_video_scene)"
    by (simp_all add: readme_video_scene_eq)
  note t = marker_dimensions_offset [OF h, of spec_math 800 600]
  from t [THEN conjunct2, THEN conjunct1] t [THEN conjunct2, THEN conjunct2, THEN conjunct1]
  show ?thesis using h by auto
qed

section \<open>The round trip of the rotation (C5)\<close>




section \<open>The surfaces of \<open>addVideo\<close> and \<open>addImage\<close> (C6)\<close>

text \<open>
  Claim C6 asks of \<open>addImage\<close> the surface of \<open>addVideo\<close>: a plane whose material is the
  standard material with the black diffuse colour and the texture as emissive texture.
  On a new renderer, with the arguments of the README, \<open>addVideo\<close> gives the plane that
  material; \<open>addImage\<close> builds the same material and the same plane, and assigns the
  texture itself to the plane's \<open>material\<close> field, so that the material is on no mesh.
\<close>

theorem addImage_plane_material_is_texture:
  "n_material (meshes (snd (addImage readme_env ''uuid'' readme_video SceneRendererBJS)) ! 1)
     = Some (TextureRef 0)
   \<and> n_material (meshes (snd (addVideo readme_env ''uuid'' readme_video SceneRendererBJS)) ! 1)
     = Some (MaterialRef 0)
   \<and> materials (snd (addImage readme_env ''uuid'' readme_video SceneRendererBJS)) ! 0
     = (StandardMaterial ''marker-name Image Material'')
         \<lparr>m_diffuseColor := Color3_Black, m_emissiveTexture := Some 0\<rparr>
   \<and> meshes (snd (addImage readme_env ''uuid'' readme_video SceneRendererBJS)) ! 1
     = (meshes (snd (addVideo readme_env ''uuid'' readme_video SceneRendererBJS)) ! 1)
         \<lparr>n_material := Some (TextureRef 0)\<rparr>"
  by (simp add: addImage_scene addVideo_scene SceneRendererBJS_def readme_video_def)

section \<open>Failing loads (C7)\<close>

text \<open>
  Claim C7, as the specification states it, fails for \<open>addVideo\<close>: with a video URL
  whose load fails, \<open>addVideo\<close> resolves, with the video of the texture, and the failure
  is left in the texture.
\<close>

theorem addVideo_resolves_on_failed_load:
  "textureLoad readme_env (Url ''url/to/video'') = Some (LoadError ''url/to/video'')
   \<and> fst (addVideo readme_env ''uuid'' (readme_video\<lparr>vargs_src := Url ''url/to/video''\<rparr>)
          SceneRendererBJS) = Inr (Some (Url ''url/to/video''))
   \<and> t_loadError (textures (snd (addVideo readme_env ''uuid''
          (readme_video\<lparr>vargs_src := Url ''url/to/video''\<rparr>) SceneRendererBJS)) ! 0)
       = Some (LoadError ''url/to/video'')"
  by (simp add: addVideo_scene addVideo_result SceneRendererBJS_def readme_env_def)

text \<open>
  Claim C7, amended. When the engine's importer rejects the URL of the asset, the promise
  of \<open>addModel\<close> rejects with the importer's failure, which so reaches the caller; the
  render loop is left as it is, running if it ran, and the import is not tried again: the
  importer has been called for the URL once, and nothing else of the renderer has
  changed (nothing is attached, no listener is registered). \<open>addVideo\<close> does not wait
  for its texture: it resolves, with the video of the texture, whether the load of the
  video fails or not, and the outcome of the load stays with the texture. \<open>addImage\<close>
  builds its texture without a URL, so that no load is started and none can fail, and
  resolves with the plane. Neither touches the render loop.
\<close>

theorem load_failure_propagation:
  "(ImportMeshAsync e (margs_url ma) = Inl err \<longrightarrow>
      fst (addModel e uuid ma s) = Inl err
      \<and> renderLoop (snd (addModel e uuid ma s)) = renderLoop s
      \<and> importRequests (snd (addModel e uuid ma s)) = importRequests s @ [margs_url ma]
      \<and> snd (addModel e uuid ma s) = s\<lparr>importRequests := importRequests s @ [margs_url ma]\<rparr>)
   \<and> fst (addVideo e uuid a s) = Inr (Some (vargs_src a))
   \<and> t_loadError (textures (snd (addVideo e uuid a s)) ! length (textures s))
       = textureLoad e (vargs_src a)
   \<and> renderLoop (snd (addVideo e uuid a s)) = renderLoop s
   \<and> importRequests (snd (addVideo e uuid a s)) = importRequests s
   \<and> fst (addImage e uuid a s) = Inr (Suc (length (meshes s)))
   \<and> t_ctor (textures (snd (addImage e uuid a s)) ! length (textures s))
       = Texture None False True (Some (vargs_src a))
   \<and> t_loadError (textures (snd (addImage e uuid a s)) ! length (textures s)) = None
   \<and> renderLoop (snd (addImage e uuid a s)) = renderLoop s
   \<and> importRequests (snd (addImage e uuid a s)) = importRequests s"
  by (simp add: addModel_rejected addVideo_result addVideo_scene addImage_result addImage_scene
      requested_def)

theorem load_failure_propagation_witness:
  "ImportMeshAsync readme_env (margs_url (readme_model\<lparr>margs_url := ''url/to/nothing''\<rparr>))
     = Inl (LoadError ''url/to/nothing'')
   \<and> fst (addModel readme_env ''uuid'' (readme_model\<lparr>margs_url := ''url/to/nothing''\<rparr>)
         (start readme_video_scene)) = Inl (LoadError ''url/to/nothing'')
   \<and> renderLoop (start readme_video_scene)
   \<and> renderLoop (snd (addModel readme_env ''uuid''
         (readme_model\<lparr>margs_url := ''url/to/nothing''\<rparr>) (start readme_video_scene)))
   \<and> importRequests (snd (addModel readme_env ''uuid''
         (readme_model\<lparr>margs_url := ''url/to/nothing''\<rparr>) (start readme_video_scene)))
       = [''url/to/nothing'']
   \<and> listeners (snd (addModel readme_env ''uuid''
         (readme_model\<lparr>margs_url := ''url/to/nothing''\<rparr>) (start readme_video_scene)))
       = listeners readme_video_scene"
proof -
  have h: "ImportMeshAsync readme_env (margs_url (readme_model\<lparr>margs_url := ''url/to/nothing''\<rparr>))
     = Inl (LoadError ''url/to/nothing'')"
    by (simp add: readme_env_def)
  from load_failure_propagation [THEN conjunct1, THEN mp, OF h, of "''uuid''"
      "start readme_video_scene"]
  show ?thesis using h by (simp add: start_def readme_video_scene_eq)
qed

section \<open>The default processing of a model (C8, C9)\<close>

text \<open>
  Claim C8. When no mesh of the imported data has the id \<open>__root__\<close>, the default
  processing function throws a \<open>TypeError\<close> (the assignment to a field of \<open>undefined\<close>),
  and leaves the scene as it is; \<open>addModel\<close> with the default processing then rejects
  with that error for a file without such a mesh. When a mesh of the data has the id, the
  function returns a model, and the \<open>mesh\<close> field of the model is that mesh: the first of
  the data with the id.
\<close>

theorem processModelData_root_mesh:
  "((\<forall>mesh \<in> set (d_meshes data). n_id (meshes s ! mesh) \<noteq> ''__root__'') \<longrightarrow>
      processModelData data nm s = (Inl TypeError, s))
   \<and> (ImportMeshAsync e (margs_url args) = Inr a \<and> margs_process args = None
        \<and> ''__root__'' \<notin> fst ` set (a_meshes a) \<longrightarrow>
      fst (addModel e uuid args s) = Inl TypeError)
   \<and> ((\<exists>mesh \<in> set (d_meshes data). n_id (meshes s ! mesh) = ''__root__'') \<longrightarrow>
      (\<exists>model s' mesh. processModelData data nm s = (Inr model, s')
         \<and> model_mesh model = Some mesh \<and> mesh \<in> set (d_meshes data)
         \<and> n_id (meshes s ! mesh) = ''__root__''
         \<and> find (\<lambda>m. n_id (meshes s ! m) = ''__root__'') (d_meshes data) = Some mesh))"
proof (intro conjI impI, goal_cases)
  case 1
  then show ?case by (simp add: processModelData_None find_None_iff)
next
  case 2
  then have "''__root__'' \<notin> fst ` set (a_meshes a)" by simp
  from processModelData_None [OF import_asset_no_root [OF this, of "requested (margs_url args) s"],
      of JUndefined]
  show ?case using 2 by (simp add: addModel_unfold processed_def)
next
  case 3
  then obtain mesh where
    f: "find (\<lambda>m. n_id (meshes s ! m) = ''__root__'') (d_meshes data) = Some mesh"
    by (cases "find (\<lambda>m. n_id (meshes s ! m) = ''__root__'') (d_meshes data)")
       (auto simp: find_None_iff)
  from processModelData_frame [OF f, of nm] find_SomeD [OF f] f
  show ?case by auto
qed

theorem processModelData_root_mesh_witness:
  "n_id (meshes readme_video_scene ! 0) \<noteq> ''__root__''
   \<and> n_id (meshes readme_video_scene ! 1) \<noteq> ''__root__''
   \<and> processModelData \<lparr>d_meshes = [0, 1], d_animationGroups = []\<rparr> JUndefined readme_video_scene
       = (Inl TypeError, readme_video_scene)
   \<and> n_id (meshes (snd (import_asset readme_asset readme_video_scene)) ! 2) = ''__root__''
   \<and> (\<exists>model s'. processModelData \<lparr>d_meshes = [2, 3, 4], d_animationGroups = [0]\<rparr> JUndefined
          (snd (import_asset readme_asset readme_video_scene)) = (Inr model, s')
        \<and> model_mesh model = Some 2)"
proof -
  let ?d = "\<lparr>d_meshes = [0, 1], d_animationGroups = []\<rparr>"
  let ?d' = "\<lparr>d_meshes = [2, 3, 4], d_animationGroups = [0]\<rparr>"
  let ?s' = "snd (import_asset readme_asset readme_video_scene)"
  have h1: "\<forall>mesh \<in> set (d_meshes ?d). n_id (meshes readme_video_scene ! mesh) \<noteq> ''__root__''"
    by (simp add: readme_video_scene_eq Mesh_def)
  have ids: "n_id (meshes ?s' ! 2) = ''__root__''"
    by (simp add: readme_video_scene_eq readme_asset_def imported_mesh_def Mesh_def)
  then have h3: "\<exists>mesh \<in> set (d_meshes ?d'). n_id (meshes ?s' ! mesh) = ''__root__''"
    by simp
  note t1 = processModelData_root_mesh [where data = ?d and s = readme_video_scene
      and nm = JUndefined, THEN conjunct1, THEN mp, OF h1]
  note t3 = processModelData_root_mesh [where data = ?d' and s = ?s'
      and nm = JUndefined, THEN conjunct2, THEN conjunct2, THEN mp, OF h3]
  from t3 ids have "\<exists>model s'. processModelData ?d' JUndefined ?s' = (Inr model, s')
        \<and> model_mesh model = Some 2"
    by auto
  with t1 h1 ids show ?thesis by simp
qed

text \<open>
  Claim C9. \<open>addModel\<close> calls the default processing function with the imported data
  alone, so its parameter \<open>name\<close> is undefined. Whenever \<open>addModel\<close> with the default
  processing resolves, whatever the marker name of the call, the name and the id of the
  model's mesh are \<open>undefined Mesh\<close>, and an animation that the model has as its single
  \<open>animation\<close> (the first group, when it is named \<open>All Animations\<close> or \<open>Animation\<close>) is
  named \<open>undefined Animation\<close>.
\<close>

theorem default_processing_undefined_name:
  assumes "margs_process args = None" and "fst (addModel e uuid args s) = Inr model"
  shows "\<exists>mesh. model_mesh model = Some mesh
     \<and> n_name (meshes (snd (addModel e uuid args s)) ! mesh) = ''undefined Mesh''
     \<and> n_id (meshes (snd (addModel e uuid args s)) ! mesh) = ''undefined Mesh''
     \<and> (\<forall>g. model_animation model = Some g \<longrightarrow>
          ag_name (animationGroups (snd (addModel e uuid args s)) ! g) = ''undefined Animation'')"
proof -
  from addModel_resolved [OF assms(2)] obtain a mesh where
    p: "fst (processed args a (requested (margs_url args) s)) = Inr model"
    and m: "model_mesh model = Some mesh"
    and s': "snd (addModel e uuid args s) =
      attach_model uuid args mesh (snd (processed args a (requested (margs_url args) s)))"
    by blast
  let ?s0 = "requested (margs_url args) s"
  let ?d = "fst (import_asset a ?s0)" and ?s1 = "snd (import_asset a ?s0)"
  let ?s2 = "snd (processed args a ?s0)"
  have pd: "processed args a ?s0 = processModelData ?d JUndefined ?s1"
    using assms(1) by (simp add: processed_def)
  have imp: "\<forall>p. margs_process args = Some p \<longrightarrow> returns_imported p"
    using assms(1) by simp
  note fr = processed_frame [OF p m imp]
  have valid: "mesh < length (meshes ?s2)" "mesh < length (meshes ?s1)"
    using fr(2,3) by simp_all
  obtain m' where f: "find (\<lambda>mesh. n_id (meshes ?s1 ! mesh) = ''__root__'') (d_meshes ?d) = Some m'"
    using p pd processModelData_None [of ?s1 ?d JUndefined]
    by (cases "find (\<lambda>mesh. n_id (meshes ?s1 ! mesh) = ''__root__'') (d_meshes ?d)") auto
  let ?s4 = "renamed_root ?d JUndefined m' ?s1"
  note eq = processModelData_Some [OF f, of JUndefined, unfolded Let_def]
  have mm: "m' = mesh"
    using p m pd eq by (auto split: list.splits if_splits)
  have ms2: "meshes ?s2 = meshes ?s4"
    using pd eq by (auto split: list.splits if_splits)
  have names: "n_name (meshes ?s2 ! mesh) = ''undefined Mesh''"
    "n_id (meshes ?s2 ! mesh) = ''undefined Mesh''"
    using renamed_root_mesh [OF valid(2), of ?d JUndefined] ms2 mm by simp_all
  have anim: "\<forall>g. model_animation model = Some g \<longrightarrow>
          ag_name (animationGroups ?s2 ! g) = ''undefined Animation''"
  proof (intro allI impI)
    fix g assume g: "model_animation model = Some g"
    show "ag_name (animationGroups ?s2 ! g) = ''undefined Animation''"
    proof (cases "d_animationGroups ?d")
      case Nil
      then show ?thesis using p pd eq g by auto
    next
      case (Cons firstAnim rest)
      then have "firstAnim = length (animationGroups s)" "a_animationGroups a \<noteq> []"
        by (auto simp: upt_eq_Cons_conv)
      then have v: "firstAnim < length (animationGroups ?s4)" by simp
      show ?thesis
        using p pd eq g Cons v
        by (auto simp: upd_animationGroup_def split: if_splits)
    qed
  qed
  show ?thesis
    using m names anim valid(1)
    by (simp add: s' attach_model_meshes attach_model_frame nth_append)
qed

theorem default_processing_undefined_name_witness:
  "margs_process readme_model = None
   \<and> fst (addModel readme_env ''uuid'' readme_model readme_video_scene) =
       Inr \<lparr>model_mesh = Some 2, model_animation = Some 0, model_animations = None\<rparr>
   \<and> margs_name readme_model = ''marker-name''
   \<and> n_name (meshes readme_scene ! 2) = ''undefined Mesh''
   \<and> n_id (meshes readme_scene ! 2) = ''undefined Mesh''
   \<and> ag_name (animationGroups readme_scene ! 0) = ''undefined Animation''"
proof -
  have h: "margs_process readme_model = None" by (simp add: readme_model_def)
  from default_processing_undefined_name [OF h readme_model_result]
  show ?thesis using h readme_model_result
    by (auto simp: readme_scene_def readme_model_def)
qed

section \<open>The texture of \<open>addImage\<close> (C10)\<close>

text \<open>
  Claim C10. In \<open>addImage\<close> the branch for a URL is never taken: the test reads the
  variable \<open>texture\<close>, which is still undefined, and \<open>typeof\<close> of it is not
  \<open>"string"\<close>. For every \<open>src\<close>, a URL or an element, the texture that \<open>addImage\<close>
  adds to the scene is built by the constructor call of the other branch, with no URL
  and \<open>src\<close> as the buffer argument.
\<close>

theorem addImage_texture_from_buffer:
  "typeof JUndefined \<noteq> ''string''
   \<and> textures (snd (addImage e uuid args s)) =
       textures s @ [\<lparr>t_ctor = Texture None False True (Some (vargs_src args)),
                      t_video = None, t_loadError = None\<rparr>]
   \<and> (vargs_src args = Url url \<longrightarrow>
        t_ctor (textures (snd (addImage e uuid args s)) ! length (textures s)) =
          Texture None False True (Some (Url url)))"
  by (simp add: addImage_scene)

theorem addImage_texture_from_buffer_witness:
  "vargs_src (readme_video\<lparr>vargs_src := Url ''url/to/image''\<rparr>) = Url ''url/to/image''
   \<and> t_ctor (textures (snd (addImage readme_env ''uuid''
          (readme_video\<lparr>vargs_src := Url ''url/to/image''\<rparr>) SceneRendererBJS)) ! 0) =
       Texture None False True (Some (Url ''url/to/image''))"
  using addImage_texture_from_buffer [of readme_env "''uuid''"
    "readme_video\<lparr>vargs_src := Url ''url/to/image''\<rparr>" SceneRendererBJS "''url/to/image''"]
  by (simp add: SceneRendererBJS_def)

end
